theory Spec2Isabelle
  imports Main "HOL-Library.Sublist"
begin

section \<open>Data model (types.go)\<close>

text \<open>
  Go strings are byte sequences; they are modelled as \<open>string\<close> (a list of 8-bit
  characters), and a byte slice likewise.
\<close>

type_synonym bytes = string

text \<open>\<open>type Maintainer struct\<close>. \<open>GitHubID\<close> is an \<open>int64\<close> that no function
  of the package computes with.\<close>

record Maintainer =
  Name :: string
  Email :: string
  GitHub :: string
  GitHubID :: int

text \<open>
  \<open>type Metadata struct\<close>. A Go map can be \<open>nil\<close>, which \<open>IsYanked\<close> and
  \<open>YankReason\<close> test for, so \<open>YankedVersions\<close> is an optional map. The methods
  have a pointer receiver \<open>*Metadata\<close> that may be \<open>nil\<close>: the receiver is a
  \<open>Metadata option\<close>.
\<close>

record Metadata =
  Versions :: "string list"
  YankedVersions :: "(string \<rightharpoonup> string) option"
  Maintainers :: "Maintainer list"
  Homepage :: string
  Repository :: "string list"

text \<open>\<open>type Source struct\<close>.\<close>

record Source =
  Type :: string
  URL :: string
  Integrity :: string
  StripPrefix :: string
  Patches :: "(string \<rightharpoonup> string) option"
  PatchStrip :: int
  ArchiveType :: string
  Remote :: string
  Commit :: string
  ShallowSince :: string
  Path :: string

section \<open>Version resolver (types.go)\<close>

text \<open>\<open>func (m *Metadata) IsYanked(version string) bool\<close>\<close>

definition IsYanked :: "Metadata option \<Rightarrow> string \<Rightarrow> bool" where
  "IsYanked m version =
     (case m of
        None \<Rightarrow> False
      | Some md \<Rightarrow>
          (case YankedVersions md of
             None \<Rightarrow> False
           | Some ym \<Rightarrow> (case ym version of None \<Rightarrow> False | Some _ \<Rightarrow> True)))"

text \<open>\<open>func (m *Metadata) YankReason(version string) string\<close>: reading a missing
  key of a Go map gives the zero value, the empty string.\<close>

definition YankReason :: "Metadata option \<Rightarrow> string \<Rightarrow> string" where
  "YankReason m version =
     (case m of
        None \<Rightarrow> ''''
      | Some md \<Rightarrow>
          (case YankedVersions md of
             None \<Rightarrow> ''''
           | Some ym \<Rightarrow> (case ym version of None \<Rightarrow> '''' | Some r \<Rightarrow> r)))"

text \<open>
  \<open>strings.Contains(s, substr)\<close> of the Go standard library: \<open>substr\<close> occurs in
  \<open>s\<close> as a contiguous run of bytes. The scan tries every start position in turn.
\<close>

fun strings_Contains :: "string \<Rightarrow> string \<Rightarrow> bool" where
  "strings_Contains [] substr = (substr = [])"
| "strings_Contains (c # cs) substr =
     (prefix substr (c # cs) \<or> strings_Contains cs substr)"

text \<open>\<open>var prereleaseIndicators\<close>\<close>

definition prereleaseIndicators :: "string list" where
  "prereleaseIndicators = [''-rc'', ''-alpha'', ''-beta'', ''-dev'', ''-pre'']"

text \<open>The \<open>for _, indicator := range\<close> loop of \<open>IsPrerelease\<close>: it returns true at
  the first indicator the version contains, false when the range is exhausted.\<close>

fun IsPrerelease_loop :: "string \<Rightarrow> string list \<Rightarrow> bool" where
  "IsPrerelease_loop version [] = False"
| "IsPrerelease_loop version (indicator # rest) =
     (if strings_Contains version indicator then True
      else IsPrerelease_loop version rest)"

text \<open>\<open>func IsPrerelease(version string) bool\<close>\<close>

definition IsPrerelease :: "string \<Rightarrow> bool" where
  "IsPrerelease version = IsPrerelease_loop version prereleaseIndicators"

text \<open>
  The loop \<open>for i := len(m.Versions) - 1; i >= 0; i--\<close> of \<open>Latest\<close>. The second
  argument is \<open>i + 1\<close>, the number of indices still to visit; \<open>None\<close> means that the
  loop ran to its end without returning.
\<close>

fun Latest_loop :: "Metadata option \<Rightarrow> string list \<Rightarrow> nat \<Rightarrow> string option" where
  "Latest_loop m vs 0 = None"
| "Latest_loop m vs (Suc i) =
     (let v = vs ! i in
      if \<not> IsYanked m v then Some v else Latest_loop m vs i)"

text \<open>\<open>func (m *Metadata) Latest() string\<close>\<close>

definition Latest :: "Metadata option \<Rightarrow> string" where
  "Latest m =
     (case m of
        None \<Rightarrow> ''''
      | Some md \<Rightarrow>
          if length (Versions md) = 0 then ''''
          else (case Latest_loop m (Versions md) (length (Versions md)) of
                  Some v \<Rightarrow> v
                | None \<Rightarrow> ''''))"

text \<open>The first pass of \<open>LatestStable\<close>: yanked versions are skipped with
  \<open>continue\<close>, the first remaining version that is no prerelease is returned.\<close>

fun LatestStable_pass1 :: "Metadata option \<Rightarrow> string list \<Rightarrow> nat \<Rightarrow> string option" where
  "LatestStable_pass1 m vs 0 = None"
| "LatestStable_pass1 m vs (Suc i) =
     (let v = vs ! i in
      if IsYanked m v then LatestStable_pass1 m vs i
      else if \<not> IsPrerelease v then Some v
      else LatestStable_pass1 m vs i)"

text \<open>The second pass of \<open>LatestStable\<close>: any version that is not yanked.\<close>

fun LatestStable_pass2 :: "Metadata option \<Rightarrow> string list \<Rightarrow> nat \<Rightarrow> string option" where
  "LatestStable_pass2 m vs 0 = None"
| "LatestStable_pass2 m vs (Suc i) =
     (let v = vs ! i in
      if \<not> IsYanked m v then Some v else LatestStable_pass2 m vs i)"

text \<open>\<open>func (m *Metadata) LatestStable() string\<close>\<close>

definition LatestStable :: "Metadata option \<Rightarrow> string" where
  "LatestStable m =
     (case m of
        None \<Rightarrow> ''''
      | Some md \<Rightarrow>
          if length (Versions md) = 0 then ''''
          else (case LatestStable_pass1 m (Versions md) (length (Versions md)) of
                  Some v \<Rightarrow> v
                | None \<Rightarrow>
                    (case LatestStable_pass2 m (Versions md) (length (Versions md)) of
                       Some v \<Rightarrow> v
                     | None \<Rightarrow> '''')))"

text \<open>The \<open>for _, v := range m.Versions\<close> loop of \<open>HasVersion\<close>.\<close>

fun HasVersion_loop :: "string list \<Rightarrow> string \<Rightarrow> bool" where
  "HasVersion_loop [] version = False"
| "HasVersion_loop (v # vs) version =
     (if v = version then True else HasVersion_loop vs version)"

text \<open>\<open>func (m *Metadata) HasVersion(version string) bool\<close>\<close>

definition HasVersion :: "Metadata option \<Rightarrow> string \<Rightarrow> bool" where
  "HasVersion m version =
     (case m of
        None \<Rightarrow> False
      | Some md \<Rightarrow> HasVersion_loop (Versions md) version)"

text \<open>\<open>func (s *Source) SourceType() string\<close>\<close>

definition SourceType :: "Source option \<Rightarrow> string" where
  "SourceType s =
     (case s of
        None \<Rightarrow> ''archive''
      | Some src \<Rightarrow> if Type src = '''' then ''archive'' else Type src)"

section \<open>Errors (registry.go)\<close>

text \<open>
  The values of Go's \<open>error\<close> interface that the package creates or receives.
  \<^item> \<open>ErrNotFound\<close> is the package's sentinel \<open>errors.New("bcr: not found")\<close>; a
    sentinel is compared by identity, so it is a constructor of its own.
  \<^item> \<open>ErrListingNotSupported\<close>: Modelled from the spec: the declaration of this
    sentinel is not among the source files, only its uses are; the spec describes it
    as the outcome "backend has no enumeration mechanism", distinct from every other
    error kind. It is a second sentinel.
  \<^item> \<open>NotFoundError module version statusCode\<close> is a \<open>*NotFoundError\<close>.
  \<^item> \<open>RequestError url statusCode err\<close> is a \<open>*RequestError\<close>; its \<open>Err\<close> field
    may be \<open>nil\<close>.
  \<^item> \<open>WrapError msg err\<close> is any error that carries a message and has an
    \<open>Unwrap() error\<close> method returning the non-nil \<open>err\<close>: what
    \<open>fmt.Errorf("...: %w", err)\<close> builds, and the wrappers of the standard library.
  \<^item> \<open>LeafError msg\<close> is any other error, one without an \<open>Unwrap\<close> method (a JSON
    syntax error, a context error, an error number of the operating system).
\<close>

datatype error =
    ErrNotFound
  | ErrListingNotSupported
  | NotFoundError string string int
  | RequestError string int "error option"
  | WrapError string error
  | LeafError string

text \<open>
  The method \<open>Unwrap() error\<close>, looked up as the type assertion
  \<open>err.(interface{ Unwrap() error })\<close> does: the outer \<open>None\<close> says that the error's
  type has no such method, \<open>Some r\<close> is the method's result, which may be \<open>nil\<close>.
  \<open>NotFoundError.Unwrap\<close> always returns \<open>nil\<close>; \<open>RequestError.Unwrap\<close> returns the
  \<open>Err\<close> field.
\<close>

fun Unwrap :: "error \<Rightarrow> error option option" where
  "Unwrap (NotFoundError module version code) = Some None"
| "Unwrap (RequestError url code err) = Some err"
| "Unwrap (WrapError msg err) = Some (Some err)"
| "Unwrap ErrNotFound = None"
| "Unwrap ErrListingNotSupported = None"
| "Unwrap (LeafError msg) = None"

text \<open>\<open>func (e *NotFoundError) Is(target error) bool\<close>\<close>

definition NotFoundError_Is :: "error \<Rightarrow> bool" where
  "NotFoundError_Is target = (target = ErrNotFound)"

text \<open>
  \<open>errors.Is(err, target)\<close> of the Go standard library, for a non-nil \<open>err\<close>: at each
  error of the chain it compares the error with the target, then asks the error's
  \<open>Is\<close> method if it has one (only \<open>*NotFoundError\<close> has), then follows \<open>Unwrap\<close>;
  the walk ends with false at an error without \<open>Unwrap\<close> or when \<open>Unwrap\<close> returns
  \<open>nil\<close>. Go compares pointers where the model compares values; for the target
  \<open>ErrNotFound\<close>, the only one used, the two agree.
\<close>

fun errors_Is :: "error \<Rightarrow> error \<Rightarrow> bool" where
  "errors_Is (NotFoundError module version code) target =
     (NotFoundError module version code = target \<or> NotFoundError_Is target)"
| "errors_Is (RequestError url code err) target =
     (RequestError url code err = target \<or>
      (case err of None \<Rightarrow> False | Some e \<Rightarrow> errors_Is e target))"
| "errors_Is (WrapError msg err) target =
     (WrapError msg err = target \<or> errors_Is err target)"
| "errors_Is ErrNotFound target = (ErrNotFound = target)"
| "errors_Is ErrListingNotSupported target = (ErrListingNotSupported = target)"
| "errors_Is (LeafError msg) target = (LeafError msg = target)"

text \<open>
  \<open>func isNotFound(err error) bool\<close>. The argument is an interface value that may be
  \<open>nil\<close>, hence an \<open>error option\<close>. The recursion follows the source: the nil test,
  the comparison with the sentinel, the type assertion to \<open>*NotFoundError\<close>, then the
  type assertion to an \<open>Unwrap() error\<close> method and the recursive call on its result.
\<close>

fun isNotFound_err :: "error \<Rightarrow> bool" where
  "isNotFound_err ErrNotFound = True"
| "isNotFound_err (NotFoundError module version code) = True"
| "isNotFound_err (RequestError url code err) =
     (case err of None \<Rightarrow> False | Some e \<Rightarrow> isNotFound_err e)"
| "isNotFound_err (WrapError msg err) = isNotFound_err err"
| "isNotFound_err ErrListingNotSupported = False"
| "isNotFound_err (LeafError msg) = False"

definition isNotFound :: "error option \<Rightarrow> bool" where
  "isNotFound err = (case err of None \<Rightarrow> False | Some e \<Rightarrow> isNotFound_err e)"

text \<open>One step along the chain: \<open>e\<close> has an \<open>Unwrap\<close> method and it returns \<open>e'\<close>.\<close>

definition unwraps_to :: "error \<Rightarrow> error \<Rightarrow> bool" where
  "unwraps_to e e' = (Unwrap e = Some (Some e'))"

text \<open>The errors that \<open>isNotFound\<close> accepts at once: the sentinel and every
  \<open>*NotFoundError\<close>.\<close>

fun is_not_found_value :: "error \<Rightarrow> bool" where
  "is_not_found_value ErrNotFound = True"
| "is_not_found_value (NotFoundError module version code) = True"
| "is_not_found_value e = False"

text \<open>A transport error as \<open>fetch\<close> builds it: a \<open>*RequestError\<close> around an error of
  the HTTP layer.\<close>

fun is_RequestError :: "error \<Rightarrow> bool" where
  "is_RequestError (RequestError url code err) = True"
| "is_RequestError e = False"

section \<open>Local-tree backend (file.go)\<close>

text \<open>\<open>type FileRegistry struct { root string }\<close>\<close>

record FileRegistry =
  root :: string

text \<open>\<open>func NewFileRegistry(root string) *FileRegistry\<close>\<close>

definition NewFileRegistry :: "string \<Rightarrow> FileRegistry" where
  "NewFileRegistry r = \<lparr>root = r\<rparr>"

text \<open>\<open>strings.HasPrefix\<close> and \<open>strings.TrimPrefix\<close> of the Go standard library.\<close>

definition strings_HasPrefix :: "string \<Rightarrow> string \<Rightarrow> bool" where
  "strings_HasPrefix s p = prefix p s"

definition strings_TrimPrefix :: "string \<Rightarrow> string \<Rightarrow> string" where
  "strings_TrimPrefix s p = (if prefix p s then drop (length p) s else s)"

text \<open>
  \<open>func isWindowsAbsolutePath(path string) bool\<close>. \<open>path[i]\<close> is a byte, compared
  with the byte values of the character literals; the length test keeps the three
  reads in range.
\<close>

definition isWindowsAbsolutePath :: "string \<Rightarrow> bool" where
  "isWindowsAbsolutePath path =
     (if length path < 3 then False
      else
        let letter = (of_char (path ! 0) :: nat) in
        if \<not> ((letter \<ge> of_char CHR ''A'' \<and> letter \<le> of_char CHR ''Z'') \<or>
                (letter \<ge> of_char CHR ''a'' \<and> letter \<le> of_char CHR ''z'')) then False
        else if path ! 1 \<noteq> CHR '':'' then False
        else path ! 2 = CHR 0x5C \<or> path ! 2 = CHR ''/'')"

text \<open>\<open>func NewFileRegistryFromURL(url string) (*FileRegistry, bool)\<close>: the result
  \<open>(nil, false)\<close> is \<open>None\<close>, the result \<open>(r, true)\<close> is \<open>Some r\<close>.\<close>

definition NewFileRegistryFromURL :: "string \<Rightarrow> FileRegistry option" where
  "NewFileRegistryFromURL url =
     (if strings_HasPrefix url ''file://'' then
        Some (NewFileRegistry (strings_TrimPrefix url ''file://''))
      else if strings_HasPrefix url ''/'' then Some (NewFileRegistry url)
      else if isWindowsAbsolutePath url then Some (NewFileRegistry url)
      else None)"

text \<open>
  What \<open>ListModules\<close> sees of the operating system. A directory entry has a name and
  says whether it is a directory. The outcome of a call that returns an \<open>error\<close> is
  split by \<open>os.IsNotExist\<close>, the only test the source makes on it.
\<close>

record DirEntry =
  entry_Name :: string
  entry_IsDir :: bool

datatype 'a os_result =
    OsOk 'a
  | OsNotExist error
  | OsFailed error

text \<open>
  The functions of the standard library that \<open>ListModules\<close> calls, as the environment
  of the call: \<open>filepath.Join\<close>, \<open>os.ReadDir\<close>, and whether \<open>os.Stat\<close> returns a nil
  error.
\<close>

record os_env =
  filepath_Join :: "string list \<Rightarrow> string"
  os_ReadDir :: "string \<Rightarrow> DirEntry list os_result"
  os_Stat_ok :: "string \<Rightarrow> bool"

text \<open>The \<open>for _, entry := range entries\<close> loop of \<open>ListModules\<close>; \<open>modules\<close> is
  the slice built so far.\<close>

fun ListModules_loop :: "os_env \<Rightarrow> string \<Rightarrow> string list \<Rightarrow> DirEntry list \<Rightarrow> string list" where
  "ListModules_loop E modulesDir modules [] = modules"
| "ListModules_loop E modulesDir modules (entry # rest) =
     (if entry_IsDir entry then
        let metaPath = filepath_Join E [modulesDir, entry_Name entry, ''metadata.json''] in
        if os_Stat_ok E metaPath
        then ListModules_loop E modulesDir (modules @ [entry_Name entry]) rest
        else ListModules_loop E modulesDir modules rest
      else ListModules_loop E modulesDir modules rest)"

text \<open>\<open>func (r *FileRegistry) ListModules(ctx context.Context) ([]string, error)\<close>;
  \<open>ctxErr\<close> is the value of \<open>ctx.Err()\<close>.\<close>

definition ListModules :: "os_env \<Rightarrow> FileRegistry \<Rightarrow> error option \<Rightarrow> error + string list" where
  "ListModules E r ctxErr =
     (case ctxErr of
        Some err \<Rightarrow> Inl err
      | None \<Rightarrow>
          let modulesDir = filepath_Join E [root r, ''modules''] in
          (case os_ReadDir E modulesDir of
             OsNotExist err \<Rightarrow> Inl ErrListingNotSupported
           | OsFailed err \<Rightarrow> Inl (WrapError ''bcr: failed to list modules'' err)
           | OsOk entries \<Rightarrow> Inr (ListModules_loop E modulesDir [] entries)))"

section \<open>Resource cache (the cache implementation of the client)\<close>

text \<open>
  \<open>type cache struct { dir string; ttl time.Duration; mu sync.RWMutex }\<close>. A
  \<open>time.Duration\<close> is a count of nanoseconds. The lock has no part in a sequential
  model.
\<close>

record cache =
  cache_dir :: string
  cache_ttl :: int

text \<open>\<open>time.Hour\<close>, in nanoseconds.\<close>

definition time_Hour :: int where
  "time_Hour = 3600000000000"

text \<open>\<open>func newCache(dir string, ttl time.Duration) *cache\<close>\<close>

definition newCache :: "string \<Rightarrow> int \<Rightarrow> cache" where
  "newCache d t = \<lparr>cache_dir = d, cache_ttl = (if t = 0 then time_Hour else t)\<rparr>"

text \<open>
  The state of the cache directory, as \<open>get\<close> and \<open>set\<close> see it: at a path there
  is nothing (\<open>os.Stat\<close> fails), or an entry with a modification time, in nanoseconds
  on the clock's scale, and a content that \<open>os.ReadFile\<close> returns; the content is
  \<open>None\<close> where \<open>os.Stat\<close> succeeds and \<open>os.ReadFile\<close> fails (a directory, a file
  without read permission).
\<close>

record fnode =
  modTime :: int
  content :: "bytes option"

type_synonym filesys = "string \<rightharpoonup> fnode"

text \<open>
  \<open>time.Since(t)\<close> of the Go standard library, with the clock's reading \<open>now\<close> made
  explicit: the difference in nanoseconds, saturated to the range of an \<open>int64\<close> as
  \<open>Time.Sub\<close> documents.
\<close>

definition time_Since :: "int \<Rightarrow> int \<Rightarrow> int" where
  "time_Since now t = max (- (2 ^ 63)) (min (2 ^ 63 - 1) (now - t))"

text \<open>
  The environment of the remote backend: the functions of the standard library and
  the outside world that the client calls.
  \<^item> \<open>path_Join\<close> is \<open>path.Join\<close>; \<open>url_JoinPath\<close> is \<open>url.JoinPath\<close>, which can fail.
  \<^item> \<open>http_NewRequest u\<close> is the error of \<open>http.NewRequestWithContext\<close>, if any.
  \<^item> \<open>http_Do u ua\<close> is the outcome of \<open>c.http.Do(req)\<close> for the URL \<open>u\<close> and the
    user agent \<open>ua\<close>, followed by \<open>io.ReadAll(resp.Body)\<close>.
  \<^item> \<open>json_Metadata\<close> and \<open>json_Source\<close> are \<open>json.Unmarshal\<close> into a \<open>Metadata\<close> and a
    \<open>Source\<close>; \<open>Inl msg\<close> is a decoding error with that message. The errors of
    \<open>encoding/json\<close> have no \<open>Unwrap\<close> method.
  \<^item> \<open>fp_Join\<close>, \<open>fp_FromSlash\<close>, \<open>fp_Dir\<close> are \<open>filepath.Join\<close>, \<open>filepath.FromSlash\<close>
    and \<open>filepath.Dir\<close>.
  \<^item> \<open>os_MkdirAll_ok\<close> and \<open>os_WriteFile_ok\<close> say whether \<open>os.MkdirAll\<close> and
    \<open>os.WriteFile\<close> return a nil error at a path.
  \<^item> \<open>clock\<close> is the reading of the clock during the call.
\<close>

datatype http_result =
    DoFailed error
  | Response int "error + bytes"

record net_env =
  path_Join :: "string list \<Rightarrow> string"
  url_JoinPath :: "string \<Rightarrow> string \<Rightarrow> error + string"
  http_NewRequest :: "string \<Rightarrow> error option"
  http_Do :: "string \<Rightarrow> string \<Rightarrow> http_result"
  json_Metadata :: "bytes \<Rightarrow> string + Metadata"
  json_Source :: "bytes \<Rightarrow> string + Source"
  fp_Join :: "string \<Rightarrow> string \<Rightarrow> string"
  fp_FromSlash :: "string \<Rightarrow> string"
  fp_Dir :: "string \<Rightarrow> string"
  os_MkdirAll_ok :: "string \<Rightarrow> bool"
  os_WriteFile_ok :: "string \<Rightarrow> bool"
  clock :: int

text \<open>\<open>func (c *cache) path(key string) string\<close>\<close>

definition cache_path :: "net_env \<Rightarrow> cache \<Rightarrow> string \<Rightarrow> string" where
  "cache_path E c key = fp_Join E (cache_dir c) (fp_FromSlash E key)"

text \<open>\<open>func (c *cache) get(key string, checkTTL bool) ([]byte, bool)\<close>: the result
  \<open>(nil, false)\<close> is \<open>None\<close>, the result \<open>(data, true)\<close> is \<open>Some data\<close>.\<close>

definition cache_get :: "net_env \<Rightarrow> cache \<Rightarrow> filesys \<Rightarrow> string \<Rightarrow> bool \<Rightarrow> bytes option" where
  "cache_get E c fs key checkTTL =
     (let p = cache_path E c key in
      case fs p of
        None \<Rightarrow> None
      | Some info \<Rightarrow>
          if checkTTL \<and> time_Since (clock E) (modTime info) > cache_ttl c then None
          else (case content info of
                  None \<Rightarrow> None
                | Some data \<Rightarrow> Some data))"

text \<open>
  \<open>func (c *cache) set(key string, data []byte)\<close>. It returns nothing; its effect is
  the new state of the directory. Both failures leave the entries as they were. The
  directories that \<open>os.MkdirAll\<close> creates are not entries: \<open>get\<close> answers not-found
  at a directory as it does where nothing exists.
\<close>

definition cache_set :: "net_env \<Rightarrow> cache \<Rightarrow> filesys \<Rightarrow> string \<Rightarrow> bytes \<Rightarrow> filesys" where
  "cache_set E c fs key data =
     (let p = cache_path E c key in
      if \<not> os_MkdirAll_ok E (fp_Dir E p) then fs
      else if os_WriteFile_ok E p
      then fs(p \<mapsto> \<lparr>modTime = clock E, content = Some data\<rparr>)
      else fs)"

section \<open>Remote backend (the client)\<close>

text \<open>\<open>type Client struct\<close>. The field \<open>http\<close> is the \<open>http_Do\<close> of the environment;
  \<open>cache\<close> is a pointer that is \<open>nil\<close> when caching is off.\<close>

record Client =
  baseURL :: string
  userAgent :: string
  cache :: "cache option"

text \<open>
  \<open>func (c *Client) fetch(ctx, urlPath, module, version string) ([]byte, error)\<close>.
  The message of a \<open>WrapError\<close> is the text of the format string before \<open>%w\<close>.
\<close>

definition fetch :: "net_env \<Rightarrow> Client \<Rightarrow> string \<Rightarrow> string \<Rightarrow> string \<Rightarrow> error + bytes" where
  "fetch E c urlPath module version =
     (case url_JoinPath E (baseURL c) urlPath of
        Inl err \<Rightarrow> Inl (WrapError ''bcr: invalid URL'' err)
      | Inr u \<Rightarrow>
          (case http_NewRequest E u of
             Some err \<Rightarrow> Inl (WrapError ''bcr: failed to create request'' err)
           | None \<Rightarrow>
               (case http_Do E u (userAgent c) of
                  DoFailed err \<Rightarrow> Inl (RequestError u 0 (Some err))
                | Response statusCode body \<Rightarrow>
                    if statusCode = 404 then Inl (NotFoundError module version statusCode)
                    else if statusCode \<noteq> 200 then Inl (RequestError u statusCode None)
                    else (case body of
                            Inl err \<Rightarrow>
                              Inl (RequestError u 0
                                     (Some (WrapError ''failed to read response'' err)))
                          | Inr data \<Rightarrow> Inr data))))"

text \<open>
  The block "Check cache first" of \<open>Client.Metadata\<close>: \<open>Some meta\<close> when the block
  returns \<open>&meta\<close>, \<open>None\<close> when control falls through to the fetch.
\<close>

definition Metadata_cached :: "net_env \<Rightarrow> Client \<Rightarrow> filesys \<Rightarrow> string \<Rightarrow> Metadata option" where
  "Metadata_cached E c fs urlPath =
     (case cache c of
        None \<Rightarrow> None
      | Some ch \<Rightarrow>
          (case cache_get E ch fs urlPath True of
             None \<Rightarrow> None
           | Some data \<Rightarrow>
               (case json_Metadata E data of
                  Inl err \<Rightarrow> None
                | Inr meta \<Rightarrow> Some meta)))"

text \<open>The block "Cache the result", shared by the three fetching methods.\<close>

definition cache_result :: "net_env \<Rightarrow> Client \<Rightarrow> filesys \<Rightarrow> string \<Rightarrow> bytes \<Rightarrow> filesys" where
  "cache_result E c fs urlPath data =
     (case cache c of
        None \<Rightarrow> fs
      | Some ch \<Rightarrow> cache_set E ch fs urlPath data)"

text \<open>
  \<open>func (c *Client) Metadata(ctx, module string) (*Metadata, error)\<close>. The result
  pairs the returned value or error with the state of the cache directory after the
  call.
\<close>

definition Client_Metadata ::
  "net_env \<Rightarrow> Client \<Rightarrow> filesys \<Rightarrow> string \<Rightarrow> (error + Metadata) \<times> filesys" where
  "Client_Metadata E c fs module =
     (let urlPath = path_Join E [''modules'', module, ''metadata.json''] in
      case Metadata_cached E c fs urlPath of
        Some meta \<Rightarrow> (Inr meta, fs)
      | None \<Rightarrow>
          (case fetch E c urlPath module '''' of
             Inl err \<Rightarrow> (Inl err, fs)
           | Inr data \<Rightarrow>
               (case json_Metadata E data of
                  Inl err \<Rightarrow>
                    (Inl (WrapError (''bcr: failed to parse metadata for '' @ module)
                            (LeafError err)), fs)
                | Inr meta \<Rightarrow> (Inr meta, cache_result E c fs urlPath data))))"

text \<open>The block "Check cache" of \<open>Client.Source\<close>.\<close>

definition Source_cached :: "net_env \<Rightarrow> Client \<Rightarrow> filesys \<Rightarrow> string \<Rightarrow> Source option" where
  "Source_cached E c fs urlPath =
     (case cache c of
        None \<Rightarrow> None
      | Some ch \<Rightarrow>
          (case cache_get E ch fs urlPath False of
             None \<Rightarrow> None
           | Some data \<Rightarrow>
               (case json_Source E data of
                  Inl err \<Rightarrow> None
                | Inr src \<Rightarrow> Some src)))"

text \<open>\<open>func (c *Client) Source(ctx, module, version string) (*Source, error)\<close>\<close>

definition Client_Source ::
  "net_env \<Rightarrow> Client \<Rightarrow> filesys \<Rightarrow> string \<Rightarrow> string \<Rightarrow> (error + Source) \<times> filesys" where
  "Client_Source E c fs module version =
     (let urlPath = path_Join E [''modules'', module, version, ''source.json''] in
      case Source_cached E c fs urlPath of
        Some src \<Rightarrow> (Inr src, fs)
      | None \<Rightarrow>
          (case fetch E c urlPath module version of
             Inl err \<Rightarrow> (Inl err, fs)
           | Inr data \<Rightarrow>
               (case json_Source E data of
                  Inl err \<Rightarrow>
                    (Inl (WrapError
                            (''bcr: failed to parse source for '' @ module @ ''@'' @ version)
                            (LeafError err)), fs)
                | Inr src \<Rightarrow> (Inr src, cache_result E c fs urlPath data))))"

text \<open>The block "Check cache" of \<open>Client.ModuleFile\<close>.\<close>

definition ModuleFile_cached :: "net_env \<Rightarrow> Client \<Rightarrow> filesys \<Rightarrow> string \<Rightarrow> bytes option" where
  "ModuleFile_cached E c fs urlPath =
     (case cache c of
        None \<Rightarrow> None
      | Some ch \<Rightarrow> cache_get E ch fs urlPath False)"

text \<open>\<open>func (c *Client) ModuleFile(ctx, module, version string) ([]byte, error)\<close>\<close>

definition Client_ModuleFile ::
  "net_env \<Rightarrow> Client \<Rightarrow> filesys \<Rightarrow> string \<Rightarrow> string \<Rightarrow> (error + bytes) \<times> filesys" where
  "Client_ModuleFile E c fs module version =
     (let urlPath = path_Join E [''modules'', module, version, ''MODULE.bazel''] in
      case ModuleFile_cached E c fs urlPath of
        Some data \<Rightarrow> (Inr data, fs)
      | None \<Rightarrow>
          (case fetch E c urlPath module version of
             Inl err \<Rightarrow> (Inl err, fs)
           | Inr data \<Rightarrow> (Inr data, cache_result E c fs urlPath data)))"

text \<open>\<open>func (c *Client) Latest(ctx, module string) (string, error)\<close>\<close>

definition Client_Latest ::
  "net_env \<Rightarrow> Client \<Rightarrow> filesys \<Rightarrow> string \<Rightarrow> (error + string) \<times> filesys" where
  "Client_Latest E c fs module =
     (case Client_Metadata E c fs module of
        (Inl err, fs') \<Rightarrow> (Inl err, fs')
      | (Inr meta, fs') \<Rightarrow>
          let latest = Latest (Some meta) in
          if latest = '''' then (Inl (NotFoundError module '''' 0), fs')
          else (Inr latest, fs'))"

section \<open>Values used in the examples\<close>

text \<open>
  The composite literal \<open>&Metadata{Versions: vs, YankedVersions: ym}\<close> of the
  package's tests: the fields that are not named have their zero value.
\<close>

definition Metadata_literal :: "string list \<Rightarrow> (string \<rightharpoonup> string) option \<Rightarrow> Metadata" where
  "Metadata_literal vs ym =
     \<lparr>Versions = vs, YankedVersions = ym, Maintainers = [], Homepage = '''', Repository = []\<rparr>"

text \<open>
  \<open>filepath.Join\<close> on path elements that are already clean and not empty: the
  elements, separated by a slash.
\<close>

fun join_with_slash :: "string list \<Rightarrow> string" where
  "join_with_slash [] = ''''"
| "join_with_slash [p] = p"
| "join_with_slash (p # q # ps) = p @ ''/'' @ join_with_slash (q # ps)"

text \<open>A small registry tree: \<open>/reg/modules\<close> holds the module \<open>rules_go\<close>, a file and a
  directory without \<open>metadata.json\<close>; \<open>/empty/modules\<close> is empty; nothing else
  exists.\<close>

definition example_os_env :: os_env where
  "example_os_env =
     \<lparr>filepath_Join = join_with_slash,
      os_ReadDir = (\<lambda>p.
        if p = ''/reg/modules'' then
          OsOk [\<lparr>entry_Name = ''rules_go'', entry_IsDir = True\<rparr>,
                \<lparr>entry_Name = ''README.md'', entry_IsDir = False\<rparr>,
                \<lparr>entry_Name = ''drafts'', entry_IsDir = True\<rparr>]
        else if p = ''/empty/modules'' then OsOk []
        else OsNotExist (LeafError ''no such file or directory'')),
      os_Stat_ok = (\<lambda>p. p = ''/reg/modules/rules_go/metadata.json'')\<rparr>"

text \<open>The composite literal \<open>&Source{URL: u, Integrity: i}\<close> of the package's
  tests.\<close>

definition Source_literal :: "string \<Rightarrow> string \<Rightarrow> Source" where
  "Source_literal u i =
     \<lparr>Type = '''', URL = u, Integrity = i, StripPrefix = '''', Patches = None, PatchStrip = 0,
      ArchiveType = '''', Remote = '''', Commit = '''', ShallowSince = '''', Path = ''''\<rparr>"

text \<open>
  A small world for the remote backend: a registry at \<open>https://bcr.example\<close> that
  serves the metadata of the modules \<open>stale\<close> and \<open>allyanked\<close>, answers with a page
  that is no JSON for the module \<open>broken\<close>, and with status 404 for everything else.
  The payloads are abbreviated; what they decode to is given by \<open>json_Metadata\<close> and
  \<open>json_Source\<close>. The clock reads ten hours.
\<close>

definition example_net_env :: net_env where
  "example_net_env =
     \<lparr>path_Join = join_with_slash,
      url_JoinPath = (\<lambda>base p. Inr (base @ ''/'' @ p)),
      http_NewRequest = (\<lambda>u. None),
      http_Do = (\<lambda>u ua.
        if u = ''https://bcr.example/modules/stale/metadata.json''
        then Response 200 (Inr ''{versions: [1.0.0, 1.1.0]}'')
        else if u = ''https://bcr.example/modules/allyanked/metadata.json''
        then Response 200 (Inr ''{versions: [1.0.0], yanked_versions: {1.0.0: bad}}'')
        else if u = ''https://bcr.example/modules/broken/metadata.json''
        then Response 200 (Inr ''<html>'')
        else if u = ''https://bcr.example/modules/broken/1.0.0/source.json''
        then Response 200 (Inr ''<html>'')
        else Response 404 (Inr ''not found'')),
      json_Metadata = (\<lambda>d.
        if d = ''{versions: [1.0.0]}'' then Inr (Metadata_literal [''1.0.0''] None)
        else if d = ''{versions: [1.0.0, 1.1.0]}''
        then Inr (Metadata_literal [''1.0.0'', ''1.1.0''] None)
        else if d = ''{versions: [1.0.0], yanked_versions: {1.0.0: bad}}''
        then Inr (Metadata_literal [''1.0.0''] (Some [''1.0.0'' \<mapsto> ''bad'']))
        else Inl ''invalid character''),
      json_Source = (\<lambda>d.
        if d = ''{url: https://example.com/archive.zip, integrity: sha256-abc123}''
        then Inr (Source_literal ''https://example.com/archive.zip'' ''sha256-abc123'')
        else Inl ''invalid character''),
      fp_Join = (\<lambda>d k. d @ ''/'' @ k),
      fp_FromSlash = (\<lambda>k. k),
      fp_Dir = (\<lambda>p. rev (drop 1 (dropWhile (\<lambda>ch. ch \<noteq> CHR ''/'') (rev p)))),
      os_MkdirAll_ok = (\<lambda>d. True),
      os_WriteFile_ok = (\<lambda>p. True),
      clock = 36000000000000\<rparr>"

text \<open>A client of that registry with a cache in \<open>/cache\<close> and the default
  time-to-live of one hour.\<close>

definition example_client :: Client where
  "example_client =
     \<lparr>baseURL = ''https://bcr.example'', userAgent = ''go-bcr/1.0'',
      cache = Some (newCache ''/cache'' 0)\<rparr>"

text \<open>
  The cache directory before the calls: the metadata of \<open>fresh\<close> was written a
  thousand seconds ago, the entries of \<open>stale\<close> ten hours ago.
\<close>

definition example_cache_dir :: filesys where
  "example_cache_dir =
     [''/cache/modules/fresh/metadata.json'' \<mapsto>
        \<lparr>modTime = 35999000000000, content = Some ''{versions: [1.0.0]}''\<rparr>,
      ''/cache/modules/stale/metadata.json'' \<mapsto>
        \<lparr>modTime = 0, content = Some ''{versions: [1.0.0]}''\<rparr>,
      ''/cache/modules/stale/1.0.0/source.json'' \<mapsto>
        \<lparr>modTime = 0,
         content = Some ''{url: https://example.com/archive.zip, integrity: sha256-abc123}''\<rparr>,
      ''/cache/modules/stale/1.0.0/MODULE.bazel'' \<mapsto>
        \<lparr>modTime = 0, content = Some ''module(name = stale, version = 1.0.0)''\<rparr>]"

section \<open>Loops as list functions\<close>

text \<open>
  A scan from the last index down to the first returns the first match of the
  reversed list, which is the last match of the list.
\<close>

lemma find_rev_last_filter:
  "find P (rev xs) = (if filter P xs = [] then None else Some (last (filter P xs)))"
  by (induction xs rule: rev_induct) auto

lemma Latest_loop_find:
  "n \<le> length vs \<Longrightarrow> Latest_loop m vs n = find (\<lambda>v. \<not> IsYanked m v) (rev (take n vs))"
  by (induction n) (auto simp: take_Suc_conv_app_nth Let_def)

lemma LatestStable_pass1_find:
  "n \<le> length vs \<Longrightarrow>
   LatestStable_pass1 m vs n = find (\<lambda>v. \<not> IsYanked m v \<and> \<not> IsPrerelease v) (rev (take n vs))"
  by (induction n) (auto simp: take_Suc_conv_app_nth Let_def)

lemma LatestStable_pass2_find:
  "n \<le> length vs \<Longrightarrow> LatestStable_pass2 m vs n = find (\<lambda>v. \<not> IsYanked m v) (rev (take n vs))"
  by (induction n) (auto simp: take_Suc_conv_app_nth Let_def)

lemma Latest_eq:
  "Latest (Some md) =
     (if filter (\<lambda>v. \<not> IsYanked (Some md) v) (Versions md) = [] then ''''
      else last (filter (\<lambda>v. \<not> IsYanked (Some md) v) (Versions md)))"
  by (simp add: Latest_def Latest_loop_find find_rev_last_filter)

lemma LatestStable_eq:
  "LatestStable (Some md) =
     (if filter (\<lambda>v. \<not> IsYanked (Some md) v \<and> \<not> IsPrerelease v) (Versions md) \<noteq> []
      then last (filter (\<lambda>v. \<not> IsYanked (Some md) v \<and> \<not> IsPrerelease v) (Versions md))
      else if filter (\<lambda>v. \<not> IsYanked (Some md) v) (Versions md) \<noteq> []
      then last (filter (\<lambda>v. \<not> IsYanked (Some md) v) (Versions md))
      else '''')"
  by (simp add: LatestStable_def LatestStable_pass1_find LatestStable_pass2_find
        find_rev_last_filter)

lemma strings_Contains_sublist: "strings_Contains s sub \<longleftrightarrow> sublist sub s"
  by (induction s) (auto simp: sublist_Cons_right)

lemma IsPrerelease_loop_iff:
  "IsPrerelease_loop v inds \<longleftrightarrow> (\<exists>ind\<in>set inds. sublist ind v)"
  by (induction inds) (auto simp: strings_Contains_sublist)

lemma HasVersion_loop_iff: "HasVersion_loop vs v \<longleftrightarrow> v \<in> set vs"
  by (induction vs) auto

lemma last_filter_props:
  "filter P xs \<noteq> [] \<Longrightarrow> last (filter P xs) \<in> set xs \<and> P (last (filter P xs))"
  using last_in_set[of "filter P xs"] by auto

lemma filter_all_id: "(\<forall>x\<in>set xs. P x) \<Longrightarrow> filter P xs = xs"
  by (induction xs) auto

lemma Latest_none:
  "Versions md = [] \<or> (\<forall>v\<in>set (Versions md). IsYanked (Some md) v) \<Longrightarrow> Latest (Some md) = ''''"
  by (auto simp: Latest_eq filter_empty_conv)

section \<open>Version resolver: the claims\<close>

text \<open>
  Claim C1, as amended. For every non-nil Metadata \<open>md\<close>, \<open>LatestStable\<close> returns the
  last element of \<open>Versions\<close> that is neither yanked nor a prerelease; if there is no
  such element, the last element that is not yanked; if there is none either, the
  empty string. So the result is the empty string whenever \<open>Versions\<close> is empty or
  every element is yanked, and, provided that no element that is not yanked is
  itself the empty string, only then. A non-empty result is an element of
  \<open>Versions\<close> and is no key of \<open>YankedVersions\<close>, and the result is a prerelease
  only when every element that is not yanked is a prerelease.
\<close>

theorem LatestStable_two_pass:
  "LatestStable (Some md) =
     (if filter (\<lambda>v. \<not> IsYanked (Some md) v \<and> \<not> IsPrerelease v) (Versions md) \<noteq> []
      then last (filter (\<lambda>v. \<not> IsYanked (Some md) v \<and> \<not> IsPrerelease v) (Versions md))
      else if filter (\<lambda>v. \<not> IsYanked (Some md) v) (Versions md) \<noteq> []
      then last (filter (\<lambda>v. \<not> IsYanked (Some md) v) (Versions md))
      else '''')
   \<and> ((Versions md = [] \<or> (\<forall>v\<in>set (Versions md). IsYanked (Some md) v))
        \<longrightarrow> LatestStable (Some md) = '''')
   \<and> ((\<forall>v\<in>set (Versions md). IsYanked (Some md) v \<or> v \<noteq> '''') \<longrightarrow>
        (LatestStable (Some md) = '''' \<longleftrightarrow>
           Versions md = [] \<or> (\<forall>v\<in>set (Versions md). IsYanked (Some md) v)))
   \<and> (LatestStable (Some md) \<noteq> '''' \<longrightarrow>
        LatestStable (Some md) \<in> set (Versions md) \<and>
        \<not> IsYanked (Some md) (LatestStable (Some md)))
   \<and> (IsPrerelease (LatestStable (Some md)) \<longrightarrow>
        (\<forall>v\<in>set (Versions md). IsYanked (Some md) v \<or> IsPrerelease v))"
proof -
  let ?S = "\<lambda>v. \<not> IsYanked (Some md) v \<and> \<not> IsPrerelease v"
  let ?P = "\<lambda>v. \<not> IsYanked (Some md) v"
  let ?st = "filter ?S (Versions md)"
  let ?ok = "filter ?P (Versions md)"
  have eq: "LatestStable (Some md) =
     (if ?st \<noteq> [] then last ?st else if ?ok \<noteq> [] then last ?ok else '''')"
    by (rule LatestStable_eq)
  have st_empty: "?st = [] \<longleftrightarrow> (\<forall>v\<in>set (Versions md). IsYanked (Some md) v \<or> IsPrerelease v)"
    by (auto simp: filter_empty_conv)
  have ok_empty: "?ok = [] \<longleftrightarrow> (\<forall>v\<in>set (Versions md). IsYanked (Some md) v)"
    by (auto simp: filter_empty_conv)
  have st_sel: "?st \<noteq> [] \<Longrightarrow> last ?st \<in> set (Versions md) \<and> ?S (last ?st)"
    by (rule last_filter_props)
  have ok_sel: "?ok \<noteq> [] \<Longrightarrow> last ?ok \<in> set (Versions md) \<and> ?P (last ?ok)"
    by (rule last_filter_props)
  have ok_st: "?ok = [] \<Longrightarrow> ?st = []"
    by (auto simp: filter_empty_conv)
  have nopre: "\<not> IsPrerelease ''''"
    by (simp add: IsPrerelease_def prereleaseIndicators_def)
  have sel: "?ok \<noteq> [] \<Longrightarrow>
      LatestStable (Some md) \<in> set (Versions md) \<and> \<not> IsYanked (Some md) (LatestStable (Some md))"
    using eq st_sel ok_sel by (cases "?st = []") simp_all
  have c2: "(Versions md = [] \<or> (\<forall>v\<in>set (Versions md). IsYanked (Some md) v))
        \<longrightarrow> LatestStable (Some md) = ''''"
    using eq ok_empty ok_st by auto
  have c3: "(\<forall>v\<in>set (Versions md). IsYanked (Some md) v \<or> v \<noteq> '''') \<longrightarrow>
        (LatestStable (Some md) = '''' \<longleftrightarrow>
           Versions md = [] \<or> (\<forall>v\<in>set (Versions md). IsYanked (Some md) v))"
  proof (cases "?ok = []")
    case True
    then show ?thesis using c2 ok_empty by blast
  next
    case False
    from sel[OF False] have "LatestStable (Some md) \<in> set (Versions md)"
      "\<not> IsYanked (Some md) (LatestStable (Some md))" by simp_all
    moreover have "Versions md \<noteq> []" using False by auto
    ultimately show ?thesis by auto
  qed
  have c4: "LatestStable (Some md) \<noteq> '''' \<longrightarrow>
        LatestStable (Some md) \<in> set (Versions md) \<and>
        \<not> IsYanked (Some md) (LatestStable (Some md))"
  proof
    assume ne: "LatestStable (Some md) \<noteq> ''''"
    then have "?ok \<noteq> []" using eq ok_st by auto
    then show "LatestStable (Some md) \<in> set (Versions md) \<and>
        \<not> IsYanked (Some md) (LatestStable (Some md))" by (rule sel)
  qed
  have c5: "IsPrerelease (LatestStable (Some md)) \<longrightarrow>
        (\<forall>v\<in>set (Versions md). IsYanked (Some md) v \<or> IsPrerelease v)"
  proof
    assume pre: "IsPrerelease (LatestStable (Some md))"
    have "?st = []"
    proof (rule ccontr)
      assume ne: "?st \<noteq> []"
      then have "LatestStable (Some md) = last ?st" using eq by simp
      then show False using st_sel[OF ne] pre by simp
    qed
    then show "\<forall>v\<in>set (Versions md). IsYanked (Some md) v \<or> IsPrerelease v"
      using st_empty by simp
  qed
  show ?thesis using eq c2 c3 c4 c5 by blast
qed

theorem LatestStable_two_pass_witness:
  "'''' \<notin> set (Versions (Metadata_literal [''1.0.0'', ''1.1.0-rc1'', ''2.0.0'']
                                (Some [''2.0.0'' \<mapsto> ''broken''])))
   \<and> LatestStable (Some (Metadata_literal [''1.0.0'', ''1.1.0-rc1'', ''2.0.0''] (Some [''2.0.0'' \<mapsto> ''broken'']))) = ''1.0.0''
   \<and> IsPrerelease (LatestStable (Some (Metadata_literal [''1.0.0-rc1'', ''1.0.0-rc2''] None)))
   \<and> LatestStable (Some (Metadata_literal [''1.0.0-rc1'', ''1.0.0-rc2''] None)) = ''1.0.0-rc2''
   \<and> LatestStable (Some (Metadata_literal [''1.0.0''] (Some [''1.0.0'' \<mapsto> ''bad'']))) = ''''"
  using LatestStable_two_pass [of "Metadata_literal [''1.0.0'', ''1.1.0-rc1'', ''2.0.0''] (Some [''2.0.0'' \<mapsto> ''broken''])"]
    LatestStable_two_pass [of "Metadata_literal [''1.0.0-rc1'', ''1.0.0-rc2''] None"]
    LatestStable_two_pass [of "Metadata_literal [''1.0.0''] (Some [''1.0.0'' \<mapsto> ''bad''])"]
  by (simp add: Metadata_literal_def IsYanked_def IsPrerelease_def prereleaseIndicators_def)

text \<open>
  The claim as stated fails where a listed version is the empty string: it is
  returned as the latest stable version, and the result is empty although the list
  is not empty and its element is not yanked.
\<close>

theorem LatestStable_empty_iff_counterexample:
  "LatestStable (Some (Metadata_literal [''''] None)) = ''''
   \<and> Versions (Metadata_literal [''''] None) \<noteq> []
   \<and> '''' \<in> set (Versions (Metadata_literal [''''] None))
   \<and> \<not> IsYanked (Some (Metadata_literal [''''] None)) ''''"
  by (simp add: Metadata_literal_def IsYanked_def LatestStable_def IsPrerelease_def prereleaseIndicators_def)

text \<open>
  Claim C2, as amended. For every non-nil Metadata \<open>md\<close>, \<open>Latest\<close> returns the last
  element of \<open>Versions\<close> that is no key of \<open>YankedVersions\<close>, and the empty string
  if there is none. So the result is the empty string whenever \<open>Versions\<close> is empty
  or every element is yanked, and, provided that no element that is not yanked is
  itself the empty string, only then. When nothing is yanked the result is the last
  element of \<open>Versions\<close>, or the empty string for an empty list. A non-empty result
  is an element of \<open>Versions\<close> that is not yanked.
\<close>

theorem Latest_last_not_yanked:
  "Latest (Some md) =
     (if filter (\<lambda>v. \<not> IsYanked (Some md) v) (Versions md) = [] then ''''
      else last (filter (\<lambda>v. \<not> IsYanked (Some md) v) (Versions md)))
   \<and> ((Versions md = [] \<or> (\<forall>v\<in>set (Versions md). IsYanked (Some md) v))
        \<longrightarrow> Latest (Some md) = '''')
   \<and> ((\<forall>v\<in>set (Versions md). IsYanked (Some md) v \<or> v \<noteq> '''') \<longrightarrow>
        (Latest (Some md) = '''' \<longleftrightarrow>
           Versions md = [] \<or> (\<forall>v\<in>set (Versions md). IsYanked (Some md) v)))
   \<and> ((\<forall>v. \<not> IsYanked (Some md) v) \<longrightarrow>
        Latest (Some md) = (if Versions md = [] then '''' else last (Versions md)))
   \<and> (Latest (Some md) \<noteq> '''' \<longrightarrow>
        Latest (Some md) \<in> set (Versions md) \<and> \<not> IsYanked (Some md) (Latest (Some md)))"
proof -
  let ?P = "\<lambda>v. \<not> IsYanked (Some md) v"
  let ?ok = "filter ?P (Versions md)"
  have eq: "Latest (Some md) = (if ?ok = [] then '''' else last ?ok)"
    by (rule Latest_eq)
  have empty: "?ok = [] \<longleftrightarrow> (\<forall>v\<in>set (Versions md). IsYanked (Some md) v)"
    by (auto simp: filter_empty_conv)
  have sel: "?ok \<noteq> [] \<Longrightarrow> last ?ok \<in> set (Versions md) \<and> ?P (last ?ok)"
    by (rule last_filter_props)
  have c2: "(Versions md = [] \<or> (\<forall>v\<in>set (Versions md). IsYanked (Some md) v))
        \<longrightarrow> Latest (Some md) = ''''"
    using eq empty by auto
  have c3: "(\<forall>v\<in>set (Versions md). IsYanked (Some md) v \<or> v \<noteq> '''') \<longrightarrow>
        (Latest (Some md) = '''' \<longleftrightarrow>
           Versions md = [] \<or> (\<forall>v\<in>set (Versions md). IsYanked (Some md) v))"
  proof (cases "?ok = []")
    case True
    then show ?thesis using eq empty by simp
  next
    case False
    from sel[OF False] have "last ?ok \<in> set (Versions md)" "\<not> IsYanked (Some md) (last ?ok)"
      by simp_all
    moreover have "Latest (Some md) = last ?ok" using eq False by simp
    ultimately show ?thesis by auto
  qed
  have c4: "(\<forall>v. \<not> IsYanked (Some md) v) \<longrightarrow>
        Latest (Some md) = (if Versions md = [] then '''' else last (Versions md))"
  proof
    assume a: "\<forall>v. \<not> IsYanked (Some md) v"
    then have "?ok = Versions md" by (simp add: filter_all_id)
    then show "Latest (Some md) = (if Versions md = [] then '''' else last (Versions md))"
      using eq by simp
  qed
  have c5: "Latest (Some md) \<noteq> '''' \<longrightarrow>
        Latest (Some md) \<in> set (Versions md) \<and> \<not> IsYanked (Some md) (Latest (Some md))"
  proof
    assume ne: "Latest (Some md) \<noteq> ''''"
    then have "?ok \<noteq> []" using eq by auto
    then show "Latest (Some md) \<in> set (Versions md) \<and> \<not> IsYanked (Some md) (Latest (Some md))"
      using sel eq by simp
  qed
  show ?thesis using eq c2 c3 c4 c5 by blast
qed

theorem Latest_last_not_yanked_witness:
  "'''' \<notin> set (Versions (Metadata_literal [''1.0.0'', ''1.1.0'', ''2.0.0'']
                                (Some [''2.0.0'' \<mapsto> ''broken''])))
   \<and> Latest (Some (Metadata_literal [''1.0.0'', ''1.1.0'', ''2.0.0''] (Some [''2.0.0'' \<mapsto> ''broken'']))) = ''1.1.0''
   \<and> (\<forall>v. \<not> IsYanked (Some (Metadata_literal [''1.0.0'', ''1.1.0'', ''2.0.0''] None)) v)
   \<and> Latest (Some (Metadata_literal [''1.0.0'', ''1.1.0'', ''2.0.0''] None)) = ''2.0.0''
   \<and> Latest (Some (Metadata_literal [''1.0.0''] (Some [''1.0.0'' \<mapsto> ''bad'']))) = ''''"
  using Latest_last_not_yanked [of "Metadata_literal [''1.0.0'', ''1.1.0'', ''2.0.0''] (Some [''2.0.0'' \<mapsto> ''broken''])"]
    Latest_last_not_yanked [of "Metadata_literal [''1.0.0'', ''1.1.0'', ''2.0.0''] None"]
    Latest_last_not_yanked [of "Metadata_literal [''1.0.0''] (Some [''1.0.0'' \<mapsto> ''bad''])"]
  by (simp add: Metadata_literal_def IsYanked_def)

text \<open>
  The claim as stated fails where a listed version is the empty string: \<open>Latest\<close>
  returns that element, so the result is empty although the list is not empty and
  its element is not yanked.
\<close>

theorem Latest_empty_iff_counterexample:
  "Latest (Some (Metadata_literal [''''] None)) = ''''
   \<and> Versions (Metadata_literal [''''] None) \<noteq> []
   \<and> '''' \<in> set (Versions (Metadata_literal [''''] None))
   \<and> \<not> IsYanked (Some (Metadata_literal [''''] None)) ''''"
  by (simp add: Metadata_literal_def IsYanked_def Latest_def)

text \<open>
  Claim C8. On a nil Metadata every query method returns its "no match" result:
  \<open>IsYanked\<close> false, \<open>YankReason\<close> the empty string, \<open>HasVersion\<close> false, \<open>Latest\<close>
  and \<open>LatestStable\<close> the empty string; these are the results on an empty Metadata,
  whether its map of yanked versions is nil or an empty map.
\<close>

theorem nil_Metadata_no_match:
  "IsYanked None v = False \<and> YankReason None v = '''' \<and> HasVersion None v = False
   \<and> Latest None = '''' \<and> LatestStable None = ''''
   \<and> IsYanked (Some (Metadata_literal [] None)) v = IsYanked None v
   \<and> YankReason (Some (Metadata_literal [] None)) v = YankReason None v
   \<and> HasVersion (Some (Metadata_literal [] None)) v = HasVersion None v
   \<and> Latest (Some (Metadata_literal [] None)) = Latest None
   \<and> LatestStable (Some (Metadata_literal [] None)) = LatestStable None
   \<and> IsYanked (Some (Metadata_literal [] (Some Map.empty))) v = IsYanked None v
   \<and> YankReason (Some (Metadata_literal [] (Some Map.empty))) v = YankReason None v
   \<and> HasVersion (Some (Metadata_literal [] (Some Map.empty))) v = HasVersion None v
   \<and> Latest (Some (Metadata_literal [] (Some Map.empty))) = Latest None
   \<and> LatestStable (Some (Metadata_literal [] (Some Map.empty))) = LatestStable None"
  by (simp add: IsYanked_def YankReason_def HasVersion_def Latest_def LatestStable_def
        Metadata_literal_def)

theorem nil_Metadata_no_match_witness:
  "IsYanked None ''1.0.0'' = False \<and> YankReason None ''1.0.0'' = ''''
   \<and> HasVersion None ''1.0.0'' = False \<and> Latest None = '''' \<and> LatestStable None = ''''"
  using nil_Metadata_no_match [of "''1.0.0''"] by simp

text \<open>
  Claim C9. \<open>IsPrerelease v\<close> holds if and only if \<open>v\<close> contains one of the strings
  \<open>-rc\<close>, \<open>-alpha\<close>, \<open>-beta\<close>, \<open>-dev\<close>, \<open>-pre\<close> as a contiguous substring; nothing
  else of the version is looked at.
\<close>

theorem IsPrerelease_substring:
  "IsPrerelease v \<longleftrightarrow>
     (\<exists>ind\<in>{''-rc'', ''-alpha'', ''-beta'', ''-dev'', ''-pre''}. \<exists>pre suf. v = pre @ ind @ suf)"
  by (simp add: IsPrerelease_def IsPrerelease_loop_iff prereleaseIndicators_def sublist_def)

theorem IsPrerelease_substring_witness:
  "''-rc'' \<in> {''-rc'', ''-alpha'', ''-beta'', ''-dev'', ''-pre''}
   \<and> IsPrerelease ''1.0.0-rc1''
   \<and> IsPrerelease ''2-preview''
   \<and> \<not> IsPrerelease ''1.0.0''
   \<and> \<not> IsPrerelease ''1.0.0-special''"
proof -
  have "''1.0.0-rc1'' = ''1.0.0'' @ ''-rc'' @ ''1''" by simp
  then have a: "IsPrerelease ''1.0.0-rc1''"
    using IsPrerelease_substring [of "''1.0.0-rc1''"] by blast
  have "''2-preview'' = ''2'' @ ''-pre'' @ ''view''" by simp
  then have b: "IsPrerelease ''2-preview''"
    using IsPrerelease_substring [of "''2-preview''"] by blast
  have c: "\<not> IsPrerelease ''1.0.0''" "\<not> IsPrerelease ''1.0.0-special''"
    by (simp_all add: IsPrerelease_def prereleaseIndicators_def)
  show ?thesis using a b c by simp
qed

section \<open>Errors: the unwrap chain\<close>

lemma isNotFound_err_unfold:
  "isNotFound_err e \<longleftrightarrow>
     (e = ErrNotFound \<or> (\<exists>m v c. e = NotFoundError m v c) \<or>
      (case Unwrap e of None \<Rightarrow> False | Some r \<Rightarrow> isNotFound r))"
  by (cases e) (auto simp: isNotFound_def split: option.splits)

lemma is_not_found_value_iff:
  "is_not_found_value e \<longleftrightarrow> (e = ErrNotFound \<or> (\<exists>m v c. e = NotFoundError m v c))"
  by (cases e) auto

lemma isNotFound_err_step: "unwraps_to e e' \<Longrightarrow> isNotFound_err e' \<Longrightarrow> isNotFound_err e"
  by (cases e) (auto simp: unwraps_to_def)

lemma isNotFound_err_complete:
  "unwraps_to\<^sup>*\<^sup>* e e' \<Longrightarrow> is_not_found_value e' \<Longrightarrow> isNotFound_err e"
proof (induction rule: converse_rtranclp_induct)
  case base
  then show ?case by (cases e') auto
next
  case (step y z)
  then show ?case by (blast intro: isNotFound_err_step)
qed

lemma isNotFound_err_sound:
  "isNotFound_err e \<Longrightarrow> \<exists>e'. unwraps_to\<^sup>*\<^sup>* e e' \<and> is_not_found_value e'"
proof (induction e rule: isNotFound_err.induct)
  case 1
  show ?case by (rule exI[of _ ErrNotFound]) simp
next
  case (2 m v c)
  show ?case by (rule exI[of _ "NotFoundError m v c"]) simp
next
  case (3 url code err)
  then obtain x where x: "err = Some x" "isNotFound_err x"
    by (cases err) auto
  with 3 obtain e' where e': "unwraps_to\<^sup>*\<^sup>* x e'" "is_not_found_value e'"
    by auto
  have "unwraps_to (RequestError url code err) x"
    using x by (simp add: unwraps_to_def)
  then have "unwraps_to\<^sup>*\<^sup>* (RequestError url code err) e'"
    using e'(1) by (rule converse_rtranclp_into_rtranclp)
  then show ?case using e'(2) by blast
next
  case (4 msg err)
  then obtain e' where e': "unwraps_to\<^sup>*\<^sup>* err e'" "is_not_found_value e'"
    by auto
  have "unwraps_to (WrapError msg err) err"
    by (simp add: unwraps_to_def)
  then have "unwraps_to\<^sup>*\<^sup>* (WrapError msg err) e'"
    using e'(1) by (rule converse_rtranclp_into_rtranclp)
  then show ?case using e'(2) by blast
next
  case 5
  then show ?case by simp
next
  case (6 msg)
  then show ?case by simp
qed

section \<open>Local-tree backend: strings and the listing loop\<close>

lemma char_range_iff:
  assumes "hi < 256"
  shows "c \<in> set (map char_of [lo..<Suc hi]) \<longleftrightarrow> lo \<le> (of_char c :: nat) \<and> (of_char c :: nat) \<le> hi"
proof
  assume "c \<in> set (map char_of [lo..<Suc hi])"
  then obtain n :: nat where n: "c = char_of n" "lo \<le> n" "n \<le> hi"
    unfolding set_map set_upt by auto
  then have "(of_char c :: nat) = n" using assms by (simp add: take_bit_nat_eq_self)
  then show "lo \<le> (of_char c :: nat) \<and> (of_char c :: nat) \<le> hi" using n by simp
next
  assume a: "lo \<le> (of_char c :: nat) \<and> (of_char c :: nat) \<le> hi"
  have "c = char_of (of_char c :: nat)" by simp
  moreover have "(of_char c :: nat) \<in> set [lo..<Suc hi]"
    unfolding set_upt using a by simp
  ultimately show "c \<in> set (map char_of [lo..<Suc hi])" by (metis image_eqI set_map)
qed

lemma upper_enum: "map char_of [65..<Suc 90] = ''ABCDEFGHIJKLMNOPQRSTUVWXYZ''"
  by code_simp

lemma lower_enum: "map char_of [97..<Suc 122] = ''abcdefghijklmnopqrstuvwxyz''"
  by code_simp

lemma ascii_letter_iff:
  "((of_char c :: nat) \<ge> of_char CHR ''A'' \<and> (of_char c :: nat) \<le> of_char CHR ''Z'') \<or>
   ((of_char c :: nat) \<ge> of_char CHR ''a'' \<and> (of_char c :: nat) \<le> of_char CHR ''z'')
   \<longleftrightarrow> c \<in> set ''ABCDEFGHIJKLMNOPQRSTUVWXYZ'' \<union> set ''abcdefghijklmnopqrstuvwxyz''"
proof -
  have u: "c \<in> set ''ABCDEFGHIJKLMNOPQRSTUVWXYZ'' \<longleftrightarrow> 65 \<le> (of_char c :: nat) \<and> (of_char c :: nat) \<le> 90"
    using char_range_iff [of 90 c 65] unfolding upper_enum by simp
  have l: "c \<in> set ''abcdefghijklmnopqrstuvwxyz'' \<longleftrightarrow> 97 \<le> (of_char c :: nat) \<and> (of_char c :: nat) \<le> 122"
    using char_range_iff [of 122 c 97] unfolding lower_enum by simp
  have "(of_char CHR ''A'' :: nat) = 65" "(of_char CHR ''Z'' :: nat) = 90"
    "(of_char CHR ''a'' :: nat) = 97" "(of_char CHR ''z'' :: nat) = 122" by simp_all
  then show ?thesis unfolding Un_iff u l by simp
qed

lemma length_ge3_iff: "\<not> length s < 3 \<longleftrightarrow> (\<exists>a b c rest. s = a # b # c # rest)"
proof
  assume "\<not> length s < 3"
  then obtain a s1 where "s = a # s1" "\<not> length s1 < 2" by (cases s) auto
  moreover then obtain b s2 where "s1 = b # s2" "\<not> length s2 < 1" by (cases s1) auto
  moreover then obtain c s3 where "s2 = c # s3" by (cases s2) auto
  ultimately show "\<exists>a b c rest. s = a # b # c # rest" by blast
next
  assume "\<exists>a b c rest. s = a # b # c # rest"
  then show "\<not> length s < 3" by auto
qed

lemma if_guard_chain: "(if \<not> P then False else if \<not> B then False else Q) = (P \<and> B \<and> Q)"
  by simp

lemma isWindowsAbsolutePath_Cons3: "isWindowsAbsolutePath (a # b # c # rest) \<longleftrightarrow>
      (((of_char a :: nat) \<ge> of_char CHR ''A'' \<and> (of_char a :: nat) \<le> of_char CHR ''Z'') \<or>
       ((of_char a :: nat) \<ge> of_char CHR ''a'' \<and> (of_char a :: nat) \<le> of_char CHR ''z''))
      \<and> b = CHR '':'' \<and> (c = CHR 0x5C \<or> c = CHR ''/'')"
  unfolding isWindowsAbsolutePath_def Let_def
  apply (simp only: list.size nth_Cons_0 nth_Cons_Suc One_nat_def numeral_2_eq_2 numeral_3_eq_3 nth_Cons_Suc)
  apply (simp only: if_False if_True not_not simp_thms add_Suc_right add_0_right Suc_less_eq not_less_zero)
  apply (rule if_guard_chain)
  done

lemma ex_Cons3:
  "(\<exists>letter sep rest'. a # b # c # rest = letter # K # sep # rest' \<and> P letter \<and> Q sep)
     \<longleftrightarrow> (P a \<and> b = K \<and> Q c)"
  by auto

lemma isWindowsAbsolutePath_iff:
  "isWindowsAbsolutePath s \<longleftrightarrow>
     (\<exists>letter sep rest. s = letter # CHR '':'' # sep # rest \<and>
        letter \<in> set ''ABCDEFGHIJKLMNOPQRSTUVWXYZ'' \<union> set ''abcdefghijklmnopqrstuvwxyz'' \<and>
        (sep = CHR 0x5C \<or> sep = CHR ''/''))"
proof (cases "length s < 3")
  case True
  then have "\<not> isWindowsAbsolutePath s" by (simp add: isWindowsAbsolutePath_def)
  moreover have "\<not> (\<exists>letter sep rest. s = letter # CHR '':'' # sep # rest \<and>
        letter \<in> set ''ABCDEFGHIJKLMNOPQRSTUVWXYZ'' \<union> set ''abcdefghijklmnopqrstuvwxyz'' \<and>
        (sep = CHR 0x5C \<or> sep = CHR ''/''))"
    using True by auto
  ultimately show ?thesis by blast
next
  case False
  with length_ge3_iff [of s] obtain a b c rest where s: "s = a # b # c # rest"
    by auto
  have main: "isWindowsAbsolutePath (a # b # c # rest) \<longleftrightarrow>
      a \<in> set ''ABCDEFGHIJKLMNOPQRSTUVWXYZ'' \<union> set ''abcdefghijklmnopqrstuvwxyz''
      \<and> b = CHR '':'' \<and> (c = CHR 0x5C \<or> c = CHR ''/'')"
    unfolding isWindowsAbsolutePath_Cons3 ascii_letter_iff ..
  show ?thesis unfolding s ex_Cons3 by (rule main)
qed

lemma NewFileRegistryFromURL_cases:
  "NewFileRegistryFromURL s =
     (if prefix ''file://'' s then Some \<lparr>root = drop 7 s\<rparr>
      else if prefix ''/'' s then Some \<lparr>root = s\<rparr>
      else if isWindowsAbsolutePath s then Some \<lparr>root = s\<rparr>
      else None)"
  by (simp add: NewFileRegistryFromURL_def strings_HasPrefix_def strings_TrimPrefix_def
      NewFileRegistry_def eval_nat_numeral)

lemma ListModules_loop_eq:
  "ListModules_loop E d acc entries =
     acc @ map entry_Name
       (filter (\<lambda>e. entry_IsDir e \<and> os_Stat_ok E (filepath_Join E [d, entry_Name e, ''metadata.json'']))
          entries)"
  by (induction entries arbitrary: acc) (auto simp: Let_def)

section \<open>Errors: the claims\<close>

text \<open>
  Claim C7. The not-found predicate \<open>isNotFound\<close> holds of an error exactly when the
  error is non-nil and its \<open>Unwrap\<close> chain, the error itself included, reaches
  \<open>ErrNotFound\<close> or a \<open>*NotFoundError\<close>. Every \<open>*NotFoundError\<close> satisfies
  \<open>errors.Is(e, ErrNotFound)\<close>, and a \<open>*NotFoundError\<close> wrapped in another error
  still satisfies the predicate. On a \<open>*RequestError\<close> the predicate is the
  predicate on its cause: it fails for a transport error without a cause (a status
  other than 200 and 404) and for one whose cause is a fault of the HTTP layer; it
  fails for a parse error, which wraps an error of the JSON decoder.
\<close>

theorem isNotFound_unwrap_chain:
  "(isNotFound err \<longleftrightarrow>
      (\<exists>e e'. err = Some e \<and> unwraps_to\<^sup>*\<^sup>* e e' \<and>
         (e' = ErrNotFound \<or> (\<exists>m v c. e' = NotFoundError m v c))))
   \<and> errors_Is (NotFoundError module version code) ErrNotFound
   \<and> isNotFound (Some ErrNotFound)
   \<and> isNotFound (Some (NotFoundError module version code))
   \<and> isNotFound (Some (WrapError msg (NotFoundError module version code)))
   \<and> isNotFound (Some (RequestError url sc cause)) = isNotFound cause
   \<and> \<not> isNotFound (Some (RequestError url sc None))
   \<and> \<not> isNotFound (Some (RequestError url sc (Some (LeafError fault))))
   \<and> \<not> isNotFound (Some (RequestError url sc (Some (WrapError msg (LeafError fault)))))
   \<and> \<not> isNotFound (Some (WrapError msg (LeafError fault)))"
proof -
  have chain: "isNotFound err \<longleftrightarrow>
      (\<exists>e e'. err = Some e \<and> unwraps_to\<^sup>*\<^sup>* e e' \<and>
         (e' = ErrNotFound \<or> (\<exists>m v c. e' = NotFoundError m v c)))"
  proof (cases err)
    case None
    then show ?thesis by (simp add: isNotFound_def)
  next
    case (Some e)
    have "isNotFound_err e \<longleftrightarrow> (\<exists>e'. unwraps_to\<^sup>*\<^sup>* e e' \<and> is_not_found_value e')"
      using isNotFound_err_sound isNotFound_err_complete by blast
    then show ?thesis using Some by (simp add: isNotFound_def is_not_found_value_iff)
  qed
  have rest: "errors_Is (NotFoundError module version code) ErrNotFound"
    "isNotFound (Some ErrNotFound)"
    "isNotFound (Some (NotFoundError module version code))"
    "isNotFound (Some (WrapError msg (NotFoundError module version code)))"
    "isNotFound (Some (RequestError url sc cause)) = isNotFound cause"
    "\<not> isNotFound (Some (RequestError url sc None))"
    "\<not> isNotFound (Some (RequestError url sc (Some (LeafError fault))))"
    "\<not> isNotFound (Some (RequestError url sc (Some (WrapError msg (LeafError fault)))))"
    "\<not> isNotFound (Some (WrapError msg (LeafError fault)))"
    by (simp_all add: isNotFound_def NotFoundError_Is_def split: option.splits)
  show ?thesis using chain rest by blast
qed

theorem isNotFound_unwrap_chain_witness:
  "isNotFound (Some (WrapError ''bcr: lookup failed'' (NotFoundError ''foo'' ''1.0.0'' 404)))
   \<and> errors_Is (NotFoundError ''foo'' ''1.0.0'' 404) ErrNotFound
   \<and> \<not> isNotFound (Some (RequestError ''https://example.com'' 500 None))
   \<and> \<not> isNotFound (Some (WrapError ''bcr: failed to parse metadata for foo''
                             (LeafError ''unexpected end of JSON input'')))"
proof -
  have "unwraps_to (WrapError ''bcr: lookup failed'' (NotFoundError ''foo'' ''1.0.0'' 404))
          (NotFoundError ''foo'' ''1.0.0'' 404)"
    by (simp add: unwraps_to_def)
  then have "unwraps_to\<^sup>*\<^sup>* (WrapError ''bcr: lookup failed'' (NotFoundError ''foo'' ''1.0.0'' 404))
          (NotFoundError ''foo'' ''1.0.0'' 404)"
    by (rule r_into_rtranclp)
  then show ?thesis
    using isNotFound_unwrap_chain [where err = "Some (WrapError ''bcr: lookup failed'' (NotFoundError ''foo'' ''1.0.0'' 404))"
        and module = "''foo''" and version = "''1.0.0''" and code = 404
        and url = "''https://example.com''" and sc = 500
        and msg = "''bcr: failed to parse metadata for foo''"
        and fault = "''unexpected end of JSON input''" and cause = None]
    by blast
qed

section \<open>Local-tree backend: the claims\<close>

text \<open>
  Claim C5. \<open>NewFileRegistryFromURL s\<close> recognises, in this order: a string with the
  prefix \<open>file://\<close>, giving a registry whose root is \<open>s\<close> without these seven
  bytes; a string that begins with a slash, giving the root \<open>s\<close>; a string of the
  form letter, colon, separator, rest, where the letter is an ASCII letter of either
  case and the separator is a backslash or a slash, giving the root \<open>s\<close>. For every
  other string the result is \<open>(nil, false)\<close>. The Windows path of scenario D is
  accepted with itself as root, and \<open>relative/path\<close> is not a file location.
\<close>

theorem NewFileRegistryFromURL_classification:
  "NewFileRegistryFromURL s =
     (if prefix ''file://'' s then Some \<lparr>root = drop 7 s\<rparr>
      else if prefix ''/'' s then Some \<lparr>root = s\<rparr>
      else if (\<exists>letter sep rest. s = letter # CHR '':'' # sep # rest \<and>
                 letter \<in> set ''ABCDEFGHIJKLMNOPQRSTUVWXYZ'' \<union> set ''abcdefghijklmnopqrstuvwxyz'' \<and>
                 (sep = CHR 0x5C \<or> sep = CHR ''/''))
      then Some \<lparr>root = s\<rparr>
      else None)
   \<and> NewFileRegistryFromURL (''file://'' @ rest) = Some \<lparr>root = rest\<rparr>
   \<and> NewFileRegistryFromURL (''C:'' @ CHR 0x5C # ''path'' @ CHR 0x5C # ''to'' @ CHR 0x5C # ''registry'')
       = Some \<lparr>root = ''C:'' @ CHR 0x5C # ''path'' @ CHR 0x5C # ''to'' @ CHR 0x5C # ''registry''\<rparr>
   \<and> NewFileRegistryFromURL ''relative/path'' = None"
proof -
  have a: "NewFileRegistryFromURL s =
     (if prefix ''file://'' s then Some \<lparr>root = drop 7 s\<rparr>
      else if prefix ''/'' s then Some \<lparr>root = s\<rparr>
      else if (\<exists>letter sep rest. s = letter # CHR '':'' # sep # rest \<and>
                 letter \<in> set ''ABCDEFGHIJKLMNOPQRSTUVWXYZ'' \<union> set ''abcdefghijklmnopqrstuvwxyz'' \<and>
                 (sep = CHR 0x5C \<or> sep = CHR ''/''))
      then Some \<lparr>root = s\<rparr>
      else None)"
    using NewFileRegistryFromURL_cases [of s] unfolding isWindowsAbsolutePath_iff .
  have b: "NewFileRegistryFromURL (''file://'' @ rest) = Some \<lparr>root = rest\<rparr>"
    by (simp add: NewFileRegistryFromURL_cases)
  have c: "NewFileRegistryFromURL (''C:'' @ CHR 0x5C # ''path'' @ CHR 0x5C # ''to'' @ CHR 0x5C # ''registry'')
       = Some \<lparr>root = ''C:'' @ CHR 0x5C # ''path'' @ CHR 0x5C # ''to'' @ CHR 0x5C # ''registry''\<rparr>"
    by (simp add: NewFileRegistryFromURL_cases isWindowsAbsolutePath_Cons3)
  have d: "NewFileRegistryFromURL ''relative/path'' = None"
    by (simp add: NewFileRegistryFromURL_cases isWindowsAbsolutePath_Cons3)
  show ?thesis using a b c d by blast
qed

theorem NewFileRegistryFromURL_classification_witness:
  "NewFileRegistryFromURL ''file:///C:/path/to/registry'' = Some \<lparr>root = ''/C:/path/to/registry''\<rparr>
   \<and> NewFileRegistryFromURL ''/absolute/path'' = Some \<lparr>root = ''/absolute/path''\<rparr>
   \<and> NewFileRegistryFromURL ''d:/path'' = Some \<lparr>root = ''d:/path''\<rparr>
   \<and> NewFileRegistryFromURL ''C:path'' = None
   \<and> NewFileRegistryFromURL ''https://bcr.bazel.build'' = None"
proof -
  have a: "NewFileRegistryFromURL ''file:///C:/path/to/registry'' = Some \<lparr>root = ''/C:/path/to/registry''\<rparr>"
    using NewFileRegistryFromURL_classification [of "''file:///C:/path/to/registry''" "''''"] by simp
  have b: "NewFileRegistryFromURL ''/absolute/path'' = Some \<lparr>root = ''/absolute/path''\<rparr>"
    using NewFileRegistryFromURL_classification [of "''/absolute/path''" "''''"] by simp
  have c: "NewFileRegistryFromURL ''d:/path'' = Some \<lparr>root = ''d:/path''\<rparr>"
    using NewFileRegistryFromURL_classification [of "''d:/path''" "''''"] by simp
  have d: "NewFileRegistryFromURL ''C:path'' = None"
    using NewFileRegistryFromURL_classification [of "''C:path''" "''''"] by simp
  have e: "NewFileRegistryFromURL ''https://bcr.bazel.build'' = None"
    using NewFileRegistryFromURL_classification [of "''https://bcr.bazel.build''" "''''"] by simp
  show ?thesis using a b c d e by simp
qed

text \<open>
  Claim C6. For \<open>ListModules\<close> with a context that is not done: when reading the
  directory \<open>modules\<close> under the root reports that it does not exist, the result is
  \<open>ErrListingNotSupported\<close>, which is neither an empty list nor the wrapped error of
  another failure; when the directory is read, the result is the list of the names
  of those entries, in their order, that are directories and in which
  \<open>metadata.json\<close> can be stat-ed. So an empty directory gives the empty list, and a
  name whose \<open>metadata.json\<close> is missing is not in the result.
\<close>

theorem ListModules_spec:
  "(os_ReadDir E (filepath_Join E [root r, ''modules'']) = OsNotExist err \<longrightarrow>
      ListModules E r None = Inl ErrListingNotSupported)
   \<and> (os_ReadDir E (filepath_Join E [root r, ''modules'']) = OsOk entries \<longrightarrow>
      ListModules E r None =
        Inr (map entry_Name
               (filter (\<lambda>e. entry_IsDir e \<and>
                          os_Stat_ok E (filepath_Join E
                            [filepath_Join E [root r, ''modules''], entry_Name e, ''metadata.json'']))
                  entries)))
   \<and> (os_ReadDir E (filepath_Join E [root r, ''modules'']) = OsOk [] \<longrightarrow>
      ListModules E r None = Inr [])
   \<and> (os_ReadDir E (filepath_Join E [root r, ''modules'']) = OsOk entries \<and>
      \<not> os_Stat_ok E (filepath_Join E
            [filepath_Join E [root r, ''modules''], name, ''metadata.json'']) \<longrightarrow>
      (\<exists>names. ListModules E r None = Inr names \<and> name \<notin> set names))
   \<and> Inl ErrListingNotSupported \<noteq> (Inr [] :: error + string list)
   \<and> ErrListingNotSupported \<noteq> WrapError ''bcr: failed to list modules'' err"
proof -
  let ?d = "filepath_Join E [root r, ''modules'']"
  let ?ok = "\<lambda>e. entry_IsDir e \<and> os_Stat_ok E (filepath_Join E [?d, entry_Name e, ''metadata.json''])"
  have ok: "os_ReadDir E ?d = OsOk es \<Longrightarrow>
      ListModules E r None = Inr (map entry_Name (filter ?ok es))" for es
    by (simp add: ListModules_def Let_def ListModules_loop_eq)
  have c1: "os_ReadDir E ?d = OsNotExist err \<longrightarrow> ListModules E r None = Inl ErrListingNotSupported"
    by (simp add: ListModules_def Let_def)
  have c2: "os_ReadDir E ?d = OsOk entries \<longrightarrow>
      ListModules E r None = Inr (map entry_Name (filter ?ok entries))"
    using ok by blast
  have c3: "os_ReadDir E ?d = OsOk [] \<longrightarrow> ListModules E r None = Inr []"
    using ok [of "[]"] by simp
  have c4: "os_ReadDir E ?d = OsOk entries \<and>
      \<not> os_Stat_ok E (filepath_Join E [?d, name, ''metadata.json'']) \<longrightarrow>
      (\<exists>names. ListModules E r None = Inr names \<and> name \<notin> set names)"
  proof
    assume a: "os_ReadDir E ?d = OsOk entries \<and>
      \<not> os_Stat_ok E (filepath_Join E [?d, name, ''metadata.json''])"
    then have "ListModules E r None = Inr (map entry_Name (filter ?ok entries))"
      using ok by blast
    moreover have "name \<notin> set (map entry_Name (filter ?ok entries))"
      using a by auto
    ultimately show "\<exists>names. ListModules E r None = Inr names \<and> name \<notin> set names"
      by blast
  qed
  show ?thesis using c1 c2 c3 c4 by simp
qed

theorem ListModules_spec_witness:
  "os_ReadDir example_os_env (filepath_Join example_os_env [root (NewFileRegistry ''/none''), ''modules''])
     = OsNotExist (LeafError ''no such file or directory'')
   \<and> ListModules example_os_env (NewFileRegistry ''/none'') None = Inl ErrListingNotSupported
   \<and> ListModules example_os_env (NewFileRegistry ''/empty'') None = Inr []
   \<and> ListModules example_os_env (NewFileRegistry ''/reg'') None = Inr [''rules_go'']"
  using ListModules_spec [of example_os_env "NewFileRegistry ''/none''"
      "LeafError ''no such file or directory''" "[]" "''x''"]
    ListModules_spec [of example_os_env "NewFileRegistry ''/empty''"
      "LeafError ''no such file or directory''" "[]" "''x''"]
    ListModules_spec [of example_os_env "NewFileRegistry ''/reg''"
      "LeafError ''no such file or directory''"
      "[\<lparr>entry_Name = ''rules_go'', entry_IsDir = True\<rparr>,
        \<lparr>entry_Name = ''README.md'', entry_IsDir = False\<rparr>,
        \<lparr>entry_Name = ''drafts'', entry_IsDir = True\<rparr>]" "''drafts''"]
  by (simp add: example_os_env_def NewFileRegistry_def)

section \<open>Remote backend and cache: the claims\<close>

text \<open>The definitions that the evaluation of the examples unfolds.\<close>

lemmas example_defs =
  example_net_env_def example_client_def example_cache_dir_def newCache_def time_Hour_def
  cache_path_def cache_get_def cache_set_def cache_result_def time_Since_def fetch_def
  Metadata_cached_def Source_cached_def ModuleFile_cached_def
  Client_Metadata_def Client_Source_def Client_ModuleFile_def Client_Latest_def
  Metadata_literal_def Source_literal_def

text \<open>
  Claim C3. \<open>get(key, checkTTL)\<close> returns not-found when there is no entry at the
  key's path. With \<open>checkTTL\<close> true it returns not-found whenever the age of the
  entry exceeds the cache's time-to-live, although the bytes are there, and the
  bytes when the age does not exceed it; with \<open>checkTTL\<close> false it returns the
  stored bytes at any age. \<open>Client.Metadata\<close> checks freshness: with a stale entry
  it returns what a client without cache returns, the fetched value, and with a
  fresh entry that parses it returns the cached value and leaves the cache as it
  is. \<open>Client.Source\<close> and \<open>Client.ModuleFile\<close> do not check freshness: an entry of
  any age is returned (for \<open>Source\<close>, when it parses).
\<close>

theorem cache_get_freshness:
  "(fs (cache_path E ch key) = None \<longrightarrow> cache_get E ch fs key chk = None)
   \<and> (fs (cache_path E ch key) = Some info \<and>
        time_Since (clock E) (modTime info) > cache_ttl ch \<longrightarrow>
        cache_get E ch fs key True = None)
   \<and> (fs (cache_path E ch key) = Some info \<and> content info = Some data \<and>
        time_Since (clock E) (modTime info) \<le> cache_ttl ch \<longrightarrow>
        cache_get E ch fs key True = Some data)
   \<and> (fs (cache_path E ch key) = Some info \<and> content info = Some data \<longrightarrow>
        cache_get E ch fs key False = Some data)
   \<and> (cache c = Some ch \<and>
        fs (cache_path E ch (path_Join E [''modules'', module, ''metadata.json''])) = Some info \<and>
        time_Since (clock E) (modTime info) > cache_ttl ch \<longrightarrow>
        fst (Client_Metadata E c fs module) = fst (Client_Metadata E (c\<lparr>cache := None\<rparr>) fs module))
   \<and> (cache c = Some ch \<and>
        fs (cache_path E ch (path_Join E [''modules'', module, ''metadata.json''])) = Some info \<and>
        content info = Some data \<and> json_Metadata E data = Inr meta \<and>
        time_Since (clock E) (modTime info) \<le> cache_ttl ch \<longrightarrow>
        Client_Metadata E c fs module = (Inr meta, fs))
   \<and> (cache c = Some ch \<and>
        fs (cache_path E ch (path_Join E [''modules'', module, version, ''source.json''])) = Some info \<and>
        content info = Some data \<and> json_Source E data = Inr src \<longrightarrow>
        Client_Source E c fs module version = (Inr src, fs))
   \<and> (cache c = Some ch \<and>
        fs (cache_path E ch (path_Join E [''modules'', module, version, ''MODULE.bazel''])) = Some info \<and>
        content info = Some data \<longrightarrow>
        Client_ModuleFile E c fs module version = (Inr data, fs))"
proof -
  have g1: "fs (cache_path E ch key) = None \<longrightarrow> cache_get E ch fs key chk = None"
    by (simp add: cache_get_def)
  have g2: "fs (cache_path E ch k) = Some info \<and>
        time_Since (clock E) (modTime info) > cache_ttl ch \<longrightarrow>
        cache_get E ch fs k True = None" for k
    by (simp add: cache_get_def)
  have g3: "fs (cache_path E ch k) = Some info \<and> content info = Some data \<and>
        time_Since (clock E) (modTime info) \<le> cache_ttl ch \<longrightarrow>
        cache_get E ch fs k True = Some data" for k
    by (simp add: cache_get_def)
  have g4: "fs (cache_path E ch k) = Some info \<and> content info = Some data \<longrightarrow>
        cache_get E ch fs k False = Some data" for k
    by (simp add: cache_get_def)
  have m1: "cache c = Some ch \<and>
        fs (cache_path E ch (path_Join E [''modules'', module, ''metadata.json''])) = Some info \<and>
        time_Since (clock E) (modTime info) > cache_ttl ch \<longrightarrow>
        fst (Client_Metadata E c fs module) = fst (Client_Metadata E (c\<lparr>cache := None\<rparr>) fs module)"
  proof
    assume a: "cache c = Some ch \<and>
        fs (cache_path E ch (path_Join E [''modules'', module, ''metadata.json''])) = Some info \<and>
        time_Since (clock E) (modTime info) > cache_ttl ch"
    let ?p = "path_Join E [''modules'', module, ''metadata.json'']"
    have "cache_get E ch fs ?p True = None" using a g2 by blast
    then have miss: "Metadata_cached E c fs ?p = None"
      using a by (simp add: Metadata_cached_def)
    have miss': "Metadata_cached E (c\<lparr>cache := None\<rparr>) fs ?p = None"
      by (simp add: Metadata_cached_def)
    have same: "fetch E (c\<lparr>cache := None\<rparr>) ?p module '''' = fetch E c ?p module ''''"
      by (simp add: fetch_def cong: sum.case_cong option.case_cong http_result.case_cong)
    show "fst (Client_Metadata E c fs module) = fst (Client_Metadata E (c\<lparr>cache := None\<rparr>) fs module)"
      unfolding Client_Metadata_def Let_def miss miss' same
      by (simp split: sum.splits)
  qed
  have m2: "cache c = Some ch \<and>
        fs (cache_path E ch (path_Join E [''modules'', module, ''metadata.json''])) = Some info \<and>
        content info = Some data \<and> json_Metadata E data = Inr meta \<and>
        time_Since (clock E) (modTime info) \<le> cache_ttl ch \<longrightarrow>
        Client_Metadata E c fs module = (Inr meta, fs)"
    using g3 by (auto simp: Client_Metadata_def Metadata_cached_def Let_def)
  have s1: "cache c = Some ch \<and>
        fs (cache_path E ch (path_Join E [''modules'', module, version, ''source.json''])) = Some info \<and>
        content info = Some data \<and> json_Source E data = Inr src \<longrightarrow>
        Client_Source E c fs module version = (Inr src, fs)"
    using g4 by (auto simp: Client_Source_def Source_cached_def Let_def)
  have f1: "cache c = Some ch \<and>
        fs (cache_path E ch (path_Join E [''modules'', module, version, ''MODULE.bazel''])) = Some info \<and>
        content info = Some data \<longrightarrow>
        Client_ModuleFile E c fs module version = (Inr data, fs)"
    using g4 by (auto simp: Client_ModuleFile_def ModuleFile_cached_def Let_def)
  show ?thesis using g1 g2 g3 g4 m1 m2 s1 f1 by blast
qed

theorem cache_get_freshness_witness:
  "cache_get example_net_env (newCache ''/cache'' 0) example_cache_dir
      ''modules/absent/metadata.json'' True = None
   \<and> time_Since (clock example_net_env) 0 > cache_ttl (newCache ''/cache'' 0)
   \<and> cache_get example_net_env (newCache ''/cache'' 0) example_cache_dir
      ''modules/stale/metadata.json'' True = None
   \<and> cache_get example_net_env (newCache ''/cache'' 0) example_cache_dir
      ''modules/stale/metadata.json'' False = Some ''{versions: [1.0.0]}''
   \<and> cache_get example_net_env (newCache ''/cache'' 0) example_cache_dir
      ''modules/fresh/metadata.json'' True = Some ''{versions: [1.0.0]}''
   \<and> fst (Client_Metadata example_net_env example_client example_cache_dir ''stale'')
      = Inr (Metadata_literal [''1.0.0'', ''1.1.0''] None)
   \<and> Client_Metadata example_net_env example_client example_cache_dir ''fresh''
      = (Inr (Metadata_literal [''1.0.0''] None), example_cache_dir)
   \<and> Client_Source example_net_env example_client example_cache_dir ''stale'' ''1.0.0''
      = (Inr (Source_literal ''https://example.com/archive.zip'' ''sha256-abc123''),
         example_cache_dir)
   \<and> Client_ModuleFile example_net_env example_client example_cache_dir ''stale'' ''1.0.0''
      = (Inr ''module(name = stale, version = 1.0.0)'', example_cache_dir)"
proof -
  let ?E = example_net_env and ?ch = "newCache ''/cache'' 0" and ?fs = example_cache_dir
  let ?stale = "\<lparr>modTime = 0, content = Some ''{versions: [1.0.0]}''\<rparr>"
  let ?fresh = "\<lparr>modTime = 35999000000000, content = Some ''{versions: [1.0.0]}''\<rparr>"
  have absent: "?fs (cache_path ?E ?ch ''modules/absent/metadata.json'') = None"
    by (simp add: example_net_env_def example_cache_dir_def newCache_def cache_path_def)
  have stale: "?fs (cache_path ?E ?ch ''modules/stale/metadata.json'') = Some ?stale"
    by (simp add: example_net_env_def example_cache_dir_def newCache_def cache_path_def)
  have fresh: "?fs (cache_path ?E ?ch ''modules/fresh/metadata.json'') = Some ?fresh"
    by (simp add: example_net_env_def example_cache_dir_def newCache_def cache_path_def)
  have old: "time_Since (clock ?E) (modTime ?stale) > cache_ttl ?ch"
    by (simp add: example_net_env_def newCache_def time_Hour_def time_Since_def)
  have new: "time_Since (clock ?E) (modTime ?fresh) \<le> cache_ttl ?ch"
    by (simp add: example_net_env_def newCache_def time_Hour_def time_Since_def)
  have a: "cache_get ?E ?ch ?fs ''modules/absent/metadata.json'' True = None"
    using absent cache_get_freshness [of ?fs ?E ?ch "''modules/absent/metadata.json''"] by blast
  have b: "cache_get ?E ?ch ?fs ''modules/stale/metadata.json'' True = None"
    using stale old
      cache_get_freshness [of ?fs ?E ?ch "''modules/stale/metadata.json''" True ?stale]
    by blast
  have c: "cache_get ?E ?ch ?fs ''modules/stale/metadata.json'' False = Some ''{versions: [1.0.0]}''"
    using stale
      cache_get_freshness [of ?fs ?E ?ch "''modules/stale/metadata.json''" True ?stale
        "''{versions: [1.0.0]}''"]
    by simp
  have d: "cache_get ?E ?ch ?fs ''modules/fresh/metadata.json'' True = Some ''{versions: [1.0.0]}''"
    using fresh new
      cache_get_freshness [of ?fs ?E ?ch "''modules/fresh/metadata.json''" True ?fresh
        "''{versions: [1.0.0]}''"]
    by simp
  have cch: "cache example_client = Some ?ch"
    by (simp add: example_client_def)
  have pm: "path_Join ?E [''modules'', ''stale'', ''metadata.json''] = ''modules/stale/metadata.json''"
    "path_Join ?E [''modules'', ''fresh'', ''metadata.json''] = ''modules/fresh/metadata.json''"
    "path_Join ?E [''modules'', ''stale'', ''1.0.0'', ''source.json'']
       = ''modules/stale/1.0.0/source.json''"
    "path_Join ?E [''modules'', ''stale'', ''1.0.0'', ''MODULE.bazel'']
       = ''modules/stale/1.0.0/MODULE.bazel''"
    by (simp_all add: example_net_env_def)
  have "fst (Client_Metadata ?E example_client ?fs ''stale'')
      = fst (Client_Metadata ?E (example_client\<lparr>cache := None\<rparr>) ?fs ''stale'')"
    using cch stale old pm(1)
      cache_get_freshness [where fs = ?fs and E = ?E and ch = ?ch and c = example_client
        and module = "''stale''" and info = ?stale]
    by simp
  also have "\<dots> = Inr (Metadata_literal [''1.0.0'', ''1.1.0''] None)"
    by (simp add: example_defs)
  finally have e: "fst (Client_Metadata ?E example_client ?fs ''stale'')
      = Inr (Metadata_literal [''1.0.0'', ''1.1.0''] None)" .
  have jm: "json_Metadata ?E ''{versions: [1.0.0]}'' = Inr (Metadata_literal [''1.0.0''] None)"
    by (simp add: example_net_env_def)
  have f: "Client_Metadata ?E example_client ?fs ''fresh''
      = (Inr (Metadata_literal [''1.0.0''] None), ?fs)"
    using cch fresh new pm(2) jm
      cache_get_freshness [where fs = ?fs and E = ?E and ch = ?ch and c = example_client
        and module = "''fresh''" and info = ?fresh and data = "''{versions: [1.0.0]}''"
        and meta = "Metadata_literal [''1.0.0''] None"]
    by simp
  let ?srcdata = "''{url: https://example.com/archive.zip, integrity: sha256-abc123}''"
  let ?srcnode = "\<lparr>modTime = 0, content = Some ?srcdata\<rparr>"
  have sn: "?fs (cache_path ?E ?ch ''modules/stale/1.0.0/source.json'') = Some ?srcnode"
    by (simp add: example_net_env_def example_cache_dir_def newCache_def cache_path_def)
  have js: "json_Source ?E ?srcdata
      = Inr (Source_literal ''https://example.com/archive.zip'' ''sha256-abc123'')"
    by (simp add: example_net_env_def)
  have g: "Client_Source ?E example_client ?fs ''stale'' ''1.0.0''
      = (Inr (Source_literal ''https://example.com/archive.zip'' ''sha256-abc123''), ?fs)"
    using cch sn pm(3) js
      cache_get_freshness [where fs = ?fs and E = ?E and ch = ?ch and c = example_client
        and module = "''stale''" and version = "''1.0.0''" and info = ?srcnode
        and data = ?srcdata
        and src = "Source_literal ''https://example.com/archive.zip'' ''sha256-abc123''"]
    by simp
  let ?modnode = "\<lparr>modTime = 0, content = Some ''module(name = stale, version = 1.0.0)''\<rparr>"
  have mn: "?fs (cache_path ?E ?ch ''modules/stale/1.0.0/MODULE.bazel'') = Some ?modnode"
    by (simp add: example_net_env_def example_cache_dir_def newCache_def cache_path_def)
  have h: "Client_ModuleFile ?E example_client ?fs ''stale'' ''1.0.0''
      = (Inr ''module(name = stale, version = 1.0.0)'', ?fs)"
    using cch mn pm(4)
      cache_get_freshness [where fs = ?fs and E = ?E and ch = ?ch and c = example_client
        and module = "''stale''" and version = "''1.0.0''" and info = ?modnode
        and data = "''module(name = stale, version = 1.0.0)''"]
    by simp
  show ?thesis using a b c d e f g h old by simp
qed

text \<open>
  Claim C4. In \<open>Client.Metadata\<close> and \<open>Client.Source\<close>, when the bytes that were
  fetched do not parse, the call returns the wrapped decoder error, which is
  neither a not-found error nor a \<open>*RequestError\<close>, and the cache directory is as
  before the call. Whenever a call changes the cache directory, bytes were fetched,
  they parsed, the parsed value is returned, and the change is the write of these
  bytes under the resource's relative path.
\<close>

theorem parse_failure_bypasses_cache:
  "(Metadata_cached E c fs (path_Join E [''modules'', module, ''metadata.json'']) = None \<and>
      fetch E c (path_Join E [''modules'', module, ''metadata.json'']) module '''' = Inr data \<and>
      json_Metadata E data = Inl jerr \<longrightarrow>
      Client_Metadata E c fs module =
        (Inl (WrapError (''bcr: failed to parse metadata for '' @ module) (LeafError jerr)), fs))
   \<and> (Source_cached E c fs (path_Join E [''modules'', module, version, ''source.json'']) = None \<and>
      fetch E c (path_Join E [''modules'', module, version, ''source.json'']) module version
        = Inr data \<and>
      json_Source E data = Inl jerr \<longrightarrow>
      Client_Source E c fs module version =
        (Inl (WrapError (''bcr: failed to parse source for '' @ module @ ''@'' @ version)
                (LeafError jerr)), fs))
   \<and> \<not> isNotFound (Some (WrapError msg (LeafError jerr)))
   \<and> \<not> is_RequestError (WrapError msg (LeafError jerr))
   \<and> (snd (Client_Metadata E c fs module) \<noteq> fs \<longrightarrow>
      (\<exists>d meta.
         fetch E c (path_Join E [''modules'', module, ''metadata.json'']) module '''' = Inr d \<and>
         json_Metadata E d = Inr meta \<and>
         Client_Metadata E c fs module =
           (Inr meta, cache_result E c fs (path_Join E [''modules'', module, ''metadata.json'']) d)))
   \<and> (snd (Client_Source E c fs module version) \<noteq> fs \<longrightarrow>
      (\<exists>d src.
         fetch E c (path_Join E [''modules'', module, version, ''source.json'']) module version
           = Inr d \<and>
         json_Source E d = Inr src \<and>
         Client_Source E c fs module version =
           (Inr src,
            cache_result E c fs (path_Join E [''modules'', module, version, ''source.json'']) d)))"
proof -
  have m1: "Metadata_cached E c fs (path_Join E [''modules'', module, ''metadata.json'']) = None \<and>
      fetch E c (path_Join E [''modules'', module, ''metadata.json'']) module '''' = Inr data \<and>
      json_Metadata E data = Inl jerr \<longrightarrow>
      Client_Metadata E c fs module =
        (Inl (WrapError (''bcr: failed to parse metadata for '' @ module) (LeafError jerr)), fs)"
    by (simp add: Client_Metadata_def Let_def)
  have s1: "Source_cached E c fs (path_Join E [''modules'', module, version, ''source.json'']) = None \<and>
      fetch E c (path_Join E [''modules'', module, version, ''source.json'']) module version
        = Inr data \<and>
      json_Source E data = Inl jerr \<longrightarrow>
      Client_Source E c fs module version =
        (Inl (WrapError (''bcr: failed to parse source for '' @ module @ ''@'' @ version)
                (LeafError jerr)), fs)"
    by (simp add: Client_Source_def Let_def)
  have k: "\<not> isNotFound (Some (WrapError msg (LeafError jerr)))"
    "\<not> is_RequestError (WrapError msg (LeafError jerr))"
    by (simp_all add: isNotFound_def)
  have m2: "snd (Client_Metadata E c fs module) \<noteq> fs \<longrightarrow>
      (\<exists>d meta.
         fetch E c (path_Join E [''modules'', module, ''metadata.json'']) module '''' = Inr d \<and>
         json_Metadata E d = Inr meta \<and>
         Client_Metadata E c fs module =
           (Inr meta, cache_result E c fs (path_Join E [''modules'', module, ''metadata.json'']) d))"
    by (auto simp: Client_Metadata_def Let_def split: option.splits sum.splits)
  have s2: "snd (Client_Source E c fs module version) \<noteq> fs \<longrightarrow>
      (\<exists>d src.
         fetch E c (path_Join E [''modules'', module, version, ''source.json'']) module version
           = Inr d \<and>
         json_Source E d = Inr src \<and>
         Client_Source E c fs module version =
           (Inr src,
            cache_result E c fs (path_Join E [''modules'', module, version, ''source.json'']) d))"
    by (auto simp: Client_Source_def Let_def split: option.splits sum.splits)
  show ?thesis using m1 s1 k m2 s2 by blast
qed

theorem parse_failure_bypasses_cache_witness:
  "Metadata_cached example_net_env example_client example_cache_dir
      ''modules/broken/metadata.json'' = None
   \<and> fetch example_net_env example_client ''modules/broken/metadata.json'' ''broken'' ''''
      = Inr ''<html>''
   \<and> json_Metadata example_net_env ''<html>'' = Inl ''invalid character''
   \<and> Client_Metadata example_net_env example_client example_cache_dir ''broken''
      = (Inl (WrapError ''bcr: failed to parse metadata for broken''
                (LeafError ''invalid character'')), example_cache_dir)
   \<and> Client_Source example_net_env example_client example_cache_dir ''broken'' ''1.0.0''
      = (Inl (WrapError ''bcr: failed to parse source for broken@1.0.0''
                (LeafError ''invalid character'')), example_cache_dir)
   \<and> snd (Client_Metadata example_net_env example_client example_cache_dir ''stale'')
      \<noteq> example_cache_dir
   \<and> fst (Client_Metadata example_net_env example_client example_cache_dir ''stale'')
      = Inr (Metadata_literal [''1.0.0'', ''1.1.0''] None)"
proof -
  let ?E = example_net_env and ?c = example_client and ?fs = example_cache_dir
  have pm: "path_Join ?E [''modules'', ''broken'', ''metadata.json''] = ''modules/broken/metadata.json''"
    "path_Join ?E [''modules'', ''broken'', ''1.0.0'', ''source.json'']
       = ''modules/broken/1.0.0/source.json''"
    "path_Join ?E [''modules'', ''stale'', ''metadata.json''] = ''modules/stale/metadata.json''"
    by (simp_all add: example_net_env_def)
  have miss: "Metadata_cached ?E ?c ?fs ''modules/broken/metadata.json'' = None"
    by (simp add: example_defs)
  have got: "fetch ?E ?c ''modules/broken/metadata.json'' ''broken'' '''' = Inr ''<html>''"
    by (simp add: example_defs)
  have bad: "json_Metadata ?E ''<html>'' = Inl ''invalid character''"
    "json_Source ?E ''<html>'' = Inl ''invalid character''"
    by (simp_all add: example_net_env_def)
  have smiss: "Source_cached ?E ?c ?fs ''modules/broken/1.0.0/source.json'' = None"
    by (simp add: example_defs)
  have sgot: "fetch ?E ?c ''modules/broken/1.0.0/source.json'' ''broken'' ''1.0.0'' = Inr ''<html>''"
    by (simp add: example_defs)
  note inst = parse_failure_bypasses_cache [where E = ?E and c = ?c and fs = ?fs
      and module = "''broken''" and version = "''1.0.0''" and data = "''<html>''"
      and jerr = "''invalid character''"]
  have a: "Client_Metadata ?E ?c ?fs ''broken''
      = (Inl (WrapError ''bcr: failed to parse metadata for broken''
                (LeafError ''invalid character'')), ?fs)"
    using inst miss got bad(1) pm(1) by simp
  have b: "Client_Source ?E ?c ?fs ''broken'' ''1.0.0''
      = (Inl (WrapError ''bcr: failed to parse source for broken@1.0.0''
                (LeafError ''invalid character'')), ?fs)"
    using inst smiss sgot bad(2) pm(2) by simp
  have "snd (Client_Metadata ?E ?c ?fs ''stale'') ''/cache/modules/stale/metadata.json''
      \<noteq> ?fs ''/cache/modules/stale/metadata.json''"
    by (simp add: example_defs)
  then have w: "snd (Client_Metadata ?E ?c ?fs ''stale'') \<noteq> ?fs"
    by metis
  then obtain d meta where dm:
    "fetch ?E ?c (path_Join ?E [''modules'', ''stale'', ''metadata.json'']) ''stale'' '''' = Inr d"
    "json_Metadata ?E d = Inr meta"
    "Client_Metadata ?E ?c ?fs ''stale'' =
       (Inr meta, cache_result ?E ?c ?fs (path_Join ?E [''modules'', ''stale'', ''metadata.json'']) d)"
    using parse_failure_bypasses_cache [where E = ?E and c = ?c and fs = ?fs
      and module = "''stale''"]
    by blast
  have "fetch ?E ?c ''modules/stale/metadata.json'' ''stale'' '''' = Inr ''{versions: [1.0.0, 1.1.0]}''"
    by (simp add: example_defs)
  then have "d = ''{versions: [1.0.0, 1.1.0]}''" using dm(1) pm(3) by simp
  then have "meta = Metadata_literal [''1.0.0'', ''1.1.0''] None"
    using dm(2) by (simp add: example_net_env_def)
  then have e: "fst (Client_Metadata ?E ?c ?fs ''stale'') = Inr (Metadata_literal [''1.0.0'', ''1.1.0''] None)"
    using dm(3) by simp
  show ?thesis using miss got bad(1) a b w e by simp
qed

text \<open>
  Claim C10. When \<open>Client.Metadata\<close> succeeds for a module and \<open>Latest\<close> of the
  metadata is the empty string, as it is when the version list is empty or every
  listed version is yanked, \<open>Client.Latest\<close> returns a \<open>*NotFoundError\<close> with the
  module's name, an empty version and no status code; \<open>isNotFound\<close> and
  \<open>errors.Is(err, ErrNotFound)\<close> hold of that error.
\<close>

theorem Client_Latest_empty_is_not_found:
  "(Client_Metadata E c fs module = (Inr meta, fs') \<and> Latest (Some meta) = '''' \<longrightarrow>
      Client_Latest E c fs module = (Inl (NotFoundError module '''' 0), fs'))
   \<and> (Client_Metadata E c fs module = (Inr meta, fs') \<and>
      (Versions meta = [] \<or> (\<forall>v\<in>set (Versions meta). IsYanked (Some meta) v)) \<longrightarrow>
      Client_Latest E c fs module = (Inl (NotFoundError module '''' 0), fs'))
   \<and> isNotFound (Some (NotFoundError module '''' 0))
   \<and> errors_Is (NotFoundError module '''' 0) ErrNotFound"
proof -
  have a: "Client_Metadata E c fs module = (Inr meta, fs') \<and> Latest (Some meta) = '''' \<longrightarrow>
      Client_Latest E c fs module = (Inl (NotFoundError module '''' 0), fs')"
    by (simp add: Client_Latest_def)
  have b: "Client_Metadata E c fs module = (Inr meta, fs') \<and>
      (Versions meta = [] \<or> (\<forall>v\<in>set (Versions meta). IsYanked (Some meta) v)) \<longrightarrow>
      Client_Latest E c fs module = (Inl (NotFoundError module '''' 0), fs')"
    using a Latest_none [of meta] by blast
  have c: "isNotFound (Some (NotFoundError module '''' 0))"
    "errors_Is (NotFoundError module '''' 0) ErrNotFound"
    by (simp_all add: isNotFound_def NotFoundError_Is_def)
  show ?thesis using a b c by blast
qed

theorem Client_Latest_empty_is_not_found_witness:
  "fst (Client_Metadata example_net_env example_client example_cache_dir ''allyanked'')
      = Inr (Metadata_literal [''1.0.0''] (Some [''1.0.0'' \<mapsto> ''bad'']))
   \<and> Latest (Some (Metadata_literal [''1.0.0''] (Some [''1.0.0'' \<mapsto> ''bad'']))) = ''''
   \<and> fst (Client_Latest example_net_env example_client example_cache_dir ''allyanked'')
      = Inl (NotFoundError ''allyanked'' '''' 0)
   \<and> isNotFound (Some (NotFoundError ''allyanked'' '''' 0))"
proof -
  let ?E = example_net_env and ?c = example_client and ?fs = example_cache_dir
  let ?meta = "Metadata_literal [''1.0.0''] (Some [''1.0.0'' \<mapsto> ''bad''])"
  have m: "fst (Client_Metadata ?E ?c ?fs ''allyanked'') = Inr ?meta"
    by (simp add: example_defs)
  then have m': "Client_Metadata ?E ?c ?fs ''allyanked''
      = (Inr ?meta, snd (Client_Metadata ?E ?c ?fs ''allyanked''))"
    by (simp add: prod_eq_iff)
  have l: "Latest (Some ?meta) = ''''"
    by (simp add: Latest_def Metadata_literal_def IsYanked_def)
  note inst = Client_Latest_empty_is_not_found [where E = ?E and c = ?c and fs = ?fs
      and module = "''allyanked''" and meta = ?meta
      and fs' = "snd (Client_Metadata ?E ?c ?fs ''allyanked'')"]
  have r: "fst (Client_Latest ?E ?c ?fs ''allyanked'') = Inl (NotFoundError ''allyanked'' '''' 0)"
    using inst m' l by simp
  have n: "isNotFound (Some (NotFoundError ''allyanked'' '''' 0))"
    using inst by blast
  show ?thesis using m l r n by simp
qed

end
